theory Spec2Isabelle
  imports Complex_Main
begin

section \<open>Waterfall chart: the series builder of transformProps.ts\<close>

text \<open>
  The development embeds \<^verbatim>\<open>plugin-chart-echarts/src/Waterfall/transformProps.ts\<close>:
  the grouping helper \<^verbatim>\<open>transformer\<close>, the two accumulation loops of
  \<^verbatim>\<open>transformProps\<close> (non-cumulative and cumulative), the category axis and the
  tooltip formatter \<^verbatim>\<open>formatTooltip\<close>.

  Scope of the model.
  \<^item> A JavaScript number is a real number or \<open>NaN\<close>. Rounding, overflow to an
    infinity and the sign of zero are not carried.
  \<^item> A \<^verbatim>\<open>DataRecord\<close> is one object. Its dimension columns (read by the source
    through \<^verbatim>\<open>as string\<close> and compared with the total marker) hold a string, a
    number, a boolean or null; its metric columns (read through \<^verbatim>\<open>as number\<close>)
    hold a number or null. The two kinds of column are the two maps of the record
    \<open>row\<close>; a column that is absent reads as \<open>undefined\<close>.
  \<^item> The calls to \<^verbatim>\<open>console.debug\<close> and \<^verbatim>\<open>console.warn\<close> write a log and change
    no value; they are left out.
  \<^item> The constants of \<^verbatim>\<open>./constants\<close> and \<^verbatim>\<open>../constants\<close> are not part of the
    file: \<^verbatim>\<open>ASSIST_MARK\<close> and \<^verbatim>\<open>NULL_STRING\<close> are parameters, \<^verbatim>\<open>TOTAL_MARK\<close> and
    the \<^verbatim>\<open>LEGEND\<close> names enter through the resolved names of \<open>config\<close>, and
    \<^verbatim>\<open>TOKEN\<close> is the constructor \<open>TOKEN\<close> of \<open>series_value\<close>.
\<close>

subsection \<open>JavaScript values\<close>

text \<open>What a dimension cell, a category label or a \<^verbatim>\<open>Map\<close> key can be.\<close>

datatype jsval = JUndefined | JNull | JBool bool | JNum real | JStr string

text \<open>What a variable that the source types as \<^verbatim>\<open>number\<close> can hold at run time.\<close>

datatype jsnum = Undefined | Null | NaN | Num real

text \<open>\<^verbatim>\<open>ToNumber\<close>: null is 0, undefined is NaN.\<close>

fun ToNumber :: "jsnum \<Rightarrow> jsnum" where
  "ToNumber Undefined = NaN"
| "ToNumber Null = Num 0"
| "ToNumber NaN = NaN"
| "ToNumber (Num x) = Num x"

text \<open>The arithmetic operators on operands that are numbers, null or undefined.\<close>

fun arith :: "(real \<Rightarrow> real \<Rightarrow> real) \<Rightarrow> jsnum \<Rightarrow> jsnum \<Rightarrow> jsnum" where
  "arith f (Num x) (Num y) = Num (f x y)"
| "arith f _ _ = NaN"

definition js_plus :: "jsnum \<Rightarrow> jsnum \<Rightarrow> jsnum" where
  "js_plus a b = arith (+) (ToNumber a) (ToNumber b)"

definition js_minus :: "jsnum \<Rightarrow> jsnum \<Rightarrow> jsnum" where
  "js_minus a b = arith (-) (ToNumber a) (ToNumber b)"

definition js_times :: "jsnum \<Rightarrow> jsnum \<Rightarrow> jsnum" where
  "js_times a b = arith (*) (ToNumber a) (ToNumber b)"

text \<open>
  \<^verbatim>\<open>a / b\<close>. A zero divisor gives an infinity or NaN in JavaScript, by the sign of
  the zero, which this model does not carry: \<open>js_div\<close> is meant for a divisor that is
  not zero, and \<open>formatTooltip\<close>, its only caller, checks \<^verbatim>\<open>start !== 0\<close> first.
\<close>

definition js_div :: "jsnum \<Rightarrow> jsnum \<Rightarrow> jsnum" where
  "js_div a b = arith (/) (ToNumber a) (ToNumber b)"

text \<open>Unary minus, \<^verbatim>\<open>Math.sign\<close> and \<^verbatim>\<open>Math.abs\<close>.\<close>

fun unary :: "(real \<Rightarrow> real) \<Rightarrow> jsnum \<Rightarrow> jsnum" where
  "unary f (Num x) = Num (f x)"
| "unary f _ = NaN"

definition js_neg :: "jsnum \<Rightarrow> jsnum" where
  "js_neg a = unary uminus (ToNumber a)"

definition Math_sign :: "jsnum \<Rightarrow> jsnum" where
  "Math_sign a = unary sgn (ToNumber a)"

definition Math_abs :: "jsnum \<Rightarrow> jsnum" where
  "Math_abs a = unary abs (ToNumber a)"

text \<open>\<^verbatim>\<open>a < b\<close> and \<^verbatim>\<open>a > b\<close>: false as soon as one side is NaN.\<close>

fun compare :: "jsnum \<Rightarrow> jsnum \<Rightarrow> bool" where
  "compare (Num x) (Num y) = (x < y)"
| "compare _ _ = False"

definition js_lt :: "jsnum \<Rightarrow> jsnum \<Rightarrow> bool" where
  "js_lt a b = compare (ToNumber a) (ToNumber b)"

definition js_gt :: "jsnum \<Rightarrow> jsnum \<Rightarrow> bool" where
  "js_gt a b = js_lt b a"

definition js_ge :: "jsnum \<Rightarrow> jsnum \<Rightarrow> bool" where
  "js_ge a b = (case (ToNumber a, ToNumber b) of (Num x, Num y) \<Rightarrow> y \<le> x | _ \<Rightarrow> False)"

text \<open>\<^verbatim>\<open>a !== b\<close> on two numbers: NaN differs from everything, itself included.\<close>

fun strict_neq :: "jsnum \<Rightarrow> jsnum \<Rightarrow> bool" where
  "strict_neq NaN _ = True"
| "strict_neq _ NaN = True"
| "strict_neq a b = (a \<noteq> b)"

text \<open>\<^verbatim>\<open>a ?? d\<close>: the default for null and undefined only.\<close>

fun nullish :: "jsnum \<Rightarrow> jsnum \<Rightarrow> jsnum" where
  "nullish Undefined d = d"
| "nullish Null d = d"
| "nullish a d = a"

text \<open>\<^verbatim>\<open>typeof a === 'number'\<close>.\<close>

fun is_number :: "jsnum \<Rightarrow> bool" where
  "is_number NaN = True"
| "is_number (Num x) = True"
| "is_number _ = False"

text \<open>
  The truth value of an optional name (\<^verbatim>\<open>if (breakdown)\<close>, \<^verbatim>\<open>breakdownName && ...\<close>):
  undefined and the empty string are false. \<open>given\<close> returns the name when it counts
  as true.
\<close>

fun given :: "string option \<Rightarrow> string option" where
  "given None = None"
| "given (Some s) = (if s = [] then None else Some s)"

subsection \<open>Series points\<close>

text \<open>
  Modelled from the spec: the constant \<^verbatim>\<open>TOKEN\<close> of \<^verbatim>\<open>./constants\<close>, which is not among
  the sources. The specification calls it a reserved marker value, which means that no
  bar is rendered at this index. It is the constructor \<open>TOKEN\<close>, distinct from every
  number, from null and from undefined.
\<close>

datatype series_value = TOKEN | Value jsnum

text \<open>
  \<^verbatim>\<open>ISeriesData\<close>: a field the source leaves out reads as undefined.
  \<open>RgbHex c\<close> stands for \<^verbatim>\<open>rgbToHex(c.r, c.g, c.b)\<close>.
\<close>

datatype color = Transparent | RgbHex "nat \<times> nat \<times> nat"

record item_style =
  color :: color
  opacity :: "nat option"

record point =
  p_value :: series_value
  p_originalValue :: jsnum
  p_totalSum :: jsnum
  p_start :: jsnum
  p_end :: jsnum
  p_itemStyle :: "item_style option"

text \<open>\<^verbatim>\<open>{ value: v }\<close> and \<^verbatim>\<open>{ value: TOKEN }\<close>\<close>

definition only_value :: "series_value \<Rightarrow> point" where
  "only_value v =
     \<lparr>p_value = v, p_originalValue = Undefined, p_totalSum = Undefined, p_start = Undefined,
      p_end = Undefined, p_itemStyle = None\<rparr>"

definition token :: point where
  "token = only_value TOKEN"

subsection \<open>formatTooltip\<close>

text \<open>One entry of the \<^verbatim>\<open>params\<close> the chart library passes to the tooltip callback.\<close>

record callback_params =
  cb_seriesName :: string
  cb_name :: jsval
  cb_dataIndex :: nat
  cb_data :: point

text \<open>
  The first four parameters are what the source imports or calls from outside the
  file: the constants \<^verbatim>\<open>ASSIST_MARK\<close> and \<^verbatim>\<open>NULL_STRING\<close>, the function
  \<^verbatim>\<open>tooltipHtml(rows, title)\<close> and \<^verbatim>\<open>Number.prototype.toFixed(2)\<close>. The others are
  the source's own. The two checks \<^verbatim>\<open>if (!series)\<close> are both there, in the
  source's order.
\<close>

definition formatTooltip ::
  "string \<Rightarrow> string \<Rightarrow> (string list list \<Rightarrow> string option \<Rightarrow> string) \<Rightarrow> (jsnum \<Rightarrow> string) \<Rightarrow>
   callback_params list \<Rightarrow> string option \<Rightarrow> (jsnum \<Rightarrow> string) \<Rightarrow> (jsval \<Rightarrow> nat \<Rightarrow> string) \<Rightarrow>
   string \<Rightarrow> bool \<Rightarrow> string" where
  "formatTooltip ASSIST_MARK NULL_STRING tooltipHtml toFixed2
       params breakdownName defaultFormatter xAxisFormatter totalMark useNonCumulative =
     (case find (\<lambda>param. cb_seriesName param \<noteq> ASSIST_MARK \<and> p_value (cb_data param) \<noteq> TOKEN) params of
        None \<Rightarrow> []
      | Some s \<Rightarrow>
         (let series = Some s;
              isTotal = (cb_seriesName s = totalMark)
          in if series = None then NULL_STRING
             else
              (let title = (if \<not> isTotal \<or> given breakdownName \<noteq> None
                            then Some (xAxisFormatter (cb_name s) (cb_dataIndex s)) else None);
                   d = cb_data s
               in if useNonCumulative \<and> \<not> isTotal
                  then
                   (let start = p_start d;
                        end = nullish (p_end d) (p_totalSum d);
                        absChange = p_originalValue d;
                        percentChange =
                          (if is_number start \<and> start \<noteq> Num 0 \<and> is_number absChange
                           then Some (js_times (js_div absChange start) (Num 100)) else None);
                        rows =
                          (if start \<noteq> Undefined then [[''Start'', defaultFormatter start]] else []) @
                          (if end \<noteq> Undefined then [[''End'', defaultFormatter end]] else []) @
                          (case percentChange of
                             Some pc \<Rightarrow> [[''Change (%)'', toFixed2 pc @ ''%'']]
                           | None \<Rightarrow>
                              if absChange \<noteq> Undefined
                              then [[''Change'', defaultFormatter absChange]] else [])
                    in tooltipHtml rows title)
                  else
                   tooltipHtml
                     ((if \<not> isTotal
                       then [[cb_seriesName s, defaultFormatter (p_originalValue d)]] else []) @
                      [[totalMark, defaultFormatter (p_totalSum d)]])
                     title)))"

subsection \<open>Rows\<close>

record row =
  dims :: "string \<rightharpoonup> jsval"
  mets :: "string \<rightharpoonup> jsnum"

text \<open>\<^verbatim>\<open>row[column]\<close>: an absent column reads as undefined.\<close>

definition get_dim :: "row \<Rightarrow> string \<Rightarrow> jsval" where
  "get_dim r c = (case dims r c of None \<Rightarrow> JUndefined | Some v \<Rightarrow> v)"

definition get_met :: "row \<Rightarrow> string \<Rightarrow> jsnum" where
  "get_met r c = (case mets r c of None \<Rightarrow> Undefined | Some v \<Rightarrow> v)"

subsection \<open>transformer: grouping by category\<close>

text \<open>
  The \<^verbatim>\<open>Map\<close> from category label to the rows of the category keeps its keys in the
  order of their first insertion: an association list, in which a new key goes to the
  end and a known key keeps its place.
\<close>

fun group_push :: "(jsval \<times> row list) list \<Rightarrow> jsval \<Rightarrow> row \<Rightarrow> (jsval \<times> row list) list" where
  "group_push [] k r = [(k, [r])]"
| "group_push ((k', rs) # g) k r =
     (if k' = k then (k', rs @ [r]) # g else (k', rs) # group_push g k r)"

definition groupedData :: "row list \<Rightarrow> string \<Rightarrow> (jsval \<times> row list) list" where
  "groupedData data xAxis = foldl (\<lambda>acc cur. group_push acc (get_dim cur xAxis) cur) [] data"

text \<open>\<^verbatim>\<open>value.reduce((acc, cur) => acc + ((cur[metric] as number) ?? 0), 0)\<close>\<close>

definition sum_metric :: "string \<Rightarrow> row list \<Rightarrow> jsnum" where
  "sum_metric metric rs =
     foldl (\<lambda>acc cur. js_plus acc (nullish (get_met cur metric) (Num 0))) (Num 0) rs"

text \<open>With a breakdown: the rows of a category, then (if asked) the total of the category.\<close>

definition with_breakdown ::
  "string \<Rightarrow> string \<Rightarrow> string \<Rightarrow> string \<Rightarrow> bool \<Rightarrow> (jsval \<times> row list) list \<Rightarrow> row list" where
  "with_breakdown xAxis metric breakdown totalMark showTotal g =
     concat (map (\<lambda>(key, tempValue).
        (let sum = sum_metric metric tempValue in
         if showTotal
         then tempValue @
              [\<lparr>dims = [xAxis \<mapsto> key, breakdown \<mapsto> JStr totalMark], mets = [metric \<mapsto> sum]\<rparr>]
         else tempValue)) g)"

text \<open>Without one: a row per category holding its sum, then (if asked) the grand total.\<close>

definition without_breakdown ::
  "string \<Rightarrow> string \<Rightarrow> string \<Rightarrow> bool \<Rightarrow> (jsval \<times> row list) list \<Rightarrow> row list" where
  "without_breakdown xAxis metric totalMark showTotal g =
     (let (transformedData, total) =
            foldl (\<lambda>(transformedData, total). \<lambda>(key, value).
                     (let sum = sum_metric metric value
                      in (transformedData @ [\<lparr>dims = [xAxis \<mapsto> key], mets = [metric \<mapsto> sum]\<rparr>],
                          js_plus total sum)))
              ([], Num 0) g
      in if showTotal
         then transformedData @ [\<lparr>dims = [xAxis \<mapsto> JStr totalMark], mets = [metric \<mapsto> total]\<rparr>]
         else transformedData)"

definition transformer ::
  "row list \<Rightarrow> string \<Rightarrow> string \<Rightarrow> string option \<Rightarrow> string \<Rightarrow> bool \<Rightarrow> row list" where
  "transformer data xAxis metric breakdown totalMark showTotal =
     (case given breakdown of
        Some b \<Rightarrow> with_breakdown xAxis metric b totalMark showTotal (groupedData data xAxis)
      | None \<Rightarrow> without_breakdown xAxis metric totalMark showTotal (groupedData data xAxis))"

subsection \<open>Configuration\<close>

text \<open>
  The part of \<^verbatim>\<open>formData\<close> and \<^verbatim>\<open>legendState\<close> the series depend on, after the
  source has resolved the names: \<open>totalMark\<close> is \<^verbatim>\<open>totalLabel || TOTAL_MARK\<close>,
  \<open>legendIncrease\<close> and \<open>legendDecrease\<close> are \<^verbatim>\<open>legendNames.INCREASE\<close> and
  \<^verbatim>\<open>legendNames.DECREASE\<close>, \<open>metricStartLabel\<close> and \<open>metricEndLabel\<close> are undefined
  when \<^verbatim>\<open>metricStart\<close> and \<^verbatim>\<open>metricEnd\<close> are not set. An undefined \<^verbatim>\<open>legendState\<close>
  is the empty map.
\<close>

record config =
  xAxisName :: string
  breakdownName :: "string option"
  metricLabel :: string
  metricStartLabel :: "string option"
  metricEndLabel :: "string option"
  nonCumulative :: bool
  showTotal :: bool
  totalMark :: string
  legendIncrease :: string
  legendDecrease :: string
  increaseColor :: "nat \<times> nat \<times> nat"
  decreaseColor :: "nat \<times> nat \<times> nat"
  legendState :: "string \<rightharpoonup> bool"

text \<open>\<^verbatim>\<open>Boolean(nonCumulative && metricStartLabel && metricEndLabel)\<close>\<close>

definition useNonCumulative :: "config \<Rightarrow> bool" where
  "useNonCumulative cfg =
     (nonCumulative cfg \<and> given (metricStartLabel cfg) \<noteq> None \<and> given (metricEndLabel cfg) \<noteq> None)"

subsection \<open>transformProps: the two loops\<close>

record series =
  assistData :: "point list"
  increaseData :: "point list"
  decreaseData :: "point list"
  totalData :: "point list"

definition no_series :: series where
  "no_series = \<lparr>assistData = [], increaseData = [], decreaseData = [], totalData = []\<rparr>"

text \<open>
  Every pass of either loop pushes one point on each of the four arrays: \<open>bars\<close> holds
  the four points of one pass, \<open>push4\<close> is the four \<^verbatim>\<open>push\<close> calls.
\<close>

record bars =
  b_assist :: point
  b_increase :: point
  b_decrease :: point
  b_total :: point

definition push4 :: "series \<Rightarrow> bars \<Rightarrow> series" where
  "push4 s b =
     \<lparr>assistData = assistData s @ [b_assist b], increaseData = increaseData s @ [b_increase b],
      decreaseData = decreaseData s @ [b_decrease b], totalData = totalData s @ [b_total b]\<rparr>"

text \<open>
  \<^verbatim>\<open>(breakdownName && row[breakdownName] === totalMark) || row[xAxisName] === totalMark\<close>,
  the same expression in both loops.
\<close>

definition isTotal :: "config \<Rightarrow> row \<Rightarrow> bool" where
  "isTotal cfg r =
     ((case given (breakdownName cfg) of
         Some b \<Rightarrow> get_dim r b = JStr (totalMark cfg)
       | None \<Rightarrow> False)
      \<or> get_dim r (xAxisName cfg) = JStr (totalMark cfg))"

text \<open>\<^verbatim>\<open>Number(label && row[label] != null ? row[label] : 0)\<close>\<close>

definition read_metric :: "string option \<Rightarrow> row \<Rightarrow> jsnum" where
  "read_metric label r =
     ToNumber (case given label of
                 Some l \<Rightarrow> if get_met r l \<noteq> Null \<and> get_met r l \<noteq> Undefined then get_met r l else Num 0
               | None \<Rightarrow> Num 0)"

text \<open>The body of the \<^verbatim>\<open>forEach\<close> of the non-cumulative mode: the points of one row.\<close>

definition nonCumulative_bars :: "config \<Rightarrow> row \<Rightarrow> bars" where
  "nonCumulative_bars cfg r =
     (let start = read_metric (metricStartLabel cfg) r;
          end = read_metric (metricEndLabel cfg) r;
          delta = js_minus end start
      in if isTotal cfg r
         then \<lparr>b_assist = token, b_increase = token, b_decrease = token,
               b_total = \<lparr>p_value = Value end, p_originalValue = end, p_totalSum = end,
                          p_start = Num 0, p_end = end, p_itemStyle = None\<rparr>\<rparr>
         else if js_ge delta (Num 0)
         then \<lparr>b_assist = (only_value (Value start))
                            \<lparr>p_itemStyle := Some \<lparr>color = Transparent, opacity = None\<rparr>\<rparr>,
               b_increase = \<lparr>p_value = Value delta, p_originalValue = delta, p_totalSum = end,
                             p_start = start, p_end = end, p_itemStyle = None\<rparr>,
               b_decrease = token,
               b_total = token\<rparr>
         else \<lparr>b_assist = (only_value (Value start))
                            \<lparr>p_itemStyle := Some \<lparr>color = Transparent, opacity = None\<rparr>\<rparr>,
               b_increase = token,
               b_decrease = \<lparr>p_value = Value (js_neg delta), p_originalValue = delta,
                             p_totalSum = end, p_start = start, p_end = end, p_itemStyle = None\<rparr>,
               b_total = token\<rparr>)"

definition nonCumulative_series :: "config \<Rightarrow> row list \<Rightarrow> series" where
  "nonCumulative_series cfg data =
     foldl (\<lambda>s r. push4 s (nonCumulative_bars cfg r)) no_series data"

text \<open>
  The \<^verbatim>\<open>reduce\<close> callback of the running total, on the pair of the index \<open>i\<close> and the
  row \<open>cur\<close>, and the running total \<^verbatim>\<open>self.slice(0, index + 1).reduce(..., 0)\<close>.
\<close>

definition reduce_step :: "config \<Rightarrow> jsnum \<Rightarrow> nat \<times> row \<Rightarrow> jsnum" where
  "reduce_step cfg prev ic =
     (case ic of (i, cur) \<Rightarrow>
        (case given (breakdownName cfg) of
           Some b \<Rightarrow>
             if get_dim cur b \<noteq> JStr (totalMark cfg) \<or> i = 0
             then js_plus prev (nullish (get_met cur (metricLabel cfg)) (Num 0)) else prev
         | None \<Rightarrow>
             if get_dim cur (xAxisName cfg) \<noteq> JStr (totalMark cfg)
             then js_plus prev (nullish (get_met cur (metricLabel cfg)) (Num 0)) else prev))"

definition totalSum_at :: "config \<Rightarrow> row list \<Rightarrow> nat \<Rightarrow> jsnum" where
  "totalSum_at cfg self index =
     foldl (reduce_step cfg) (Num 0) (enumerate 0 (take (index + 1) self))"

text \<open>
  The body of the \<^verbatim>\<open>forEach\<close> of the cumulative mode: the points of the row \<open>datum\<close>
  at \<open>index\<close>, from \<open>previousTotal\<close> and the running total \<open>totalSum\<close> of this row.
\<close>

definition cumulative_bars :: "config \<Rightarrow> jsnum \<Rightarrow> jsnum \<Rightarrow> nat \<Rightarrow> row \<Rightarrow> bars" where
  "cumulative_bars cfg previousTotal totalSum index datum =
     (let total = isTotal cfg datum;
          originalValue = get_met datum (metricLabel cfg);
          oppositeSigns = strict_neq (Math_sign previousTotal) (Math_sign totalSum);
          value = (if oppositeSigns
                   then js_times (Math_sign originalValue)
                          (js_minus (Math_abs originalValue) (Math_abs previousTotal))
                   else originalValue);
          (increase, decrease, totalPoint) =
            (if total
             then (token, token,
                   \<lparr>p_value = Value totalSum, p_originalValue = totalSum, p_totalSum = totalSum,
                    p_start = Undefined, p_end = Undefined, p_itemStyle = None\<rparr>)
             else if js_lt value (Num 0)
             then (token,
                   \<lparr>p_value = Value (if js_lt totalSum (Num 0) then value else js_neg value),
                    p_originalValue = originalValue, p_totalSum = totalSum,
                    p_start = Undefined, p_end = Undefined, p_itemStyle = None\<rparr>,
                   token)
             else (\<lparr>p_value = Value (if js_gt totalSum (Num 0) then value else js_neg value),
                    p_originalValue = originalValue, p_totalSum = totalSum,
                    p_start = Undefined, p_end = Undefined, p_itemStyle = None\<rparr>,
                   token, token));
          color = (if oppositeSigns
                   then (if js_gt value (Num 0) then RgbHex (increaseColor cfg)
                         else RgbHex (decreaseColor cfg))
                   else Transparent);
          opacity = (if legendState cfg (legendIncrease cfg) = Some False \<and> js_gt value (Num 0)
                     then 0
                     else if legendState cfg (legendDecrease cfg) = Some False \<and> js_lt value (Num 0)
                     then 0 else 1);
          assist = (if total then token
                    else if index = 0 then only_value (Value (Num 0))
                    else if oppositeSigns \<or> js_gt (Math_abs totalSum) (Math_abs previousTotal)
                    then (only_value (Value previousTotal))
                           \<lparr>p_itemStyle := Some \<lparr>color = color, opacity = Some opacity\<rparr>\<rparr>
                    else (only_value (Value totalSum))
                           \<lparr>p_itemStyle := Some \<lparr>color = color, opacity = Some opacity\<rparr>\<rparr>)
      in \<lparr>b_assist = assist, b_increase = increase, b_decrease = decrease, b_total = totalPoint\<rparr>)"

text \<open>
  One pass of the loop on the state \<open>(previousTotal, series)\<close> and the pair
  \<open>(index, datum)\<close>; it ends with \<^verbatim>\<open>previousTotal = totalSum\<close>.
\<close>

definition cumulative_row ::
  "config \<Rightarrow> row list \<Rightarrow> jsnum \<times> series \<Rightarrow> nat \<times> row \<Rightarrow> jsnum \<times> series" where
  "cumulative_row cfg self st ix =
     (case st of (previousTotal, s) \<Rightarrow> case ix of (index, datum) \<Rightarrow>
        (let totalSum = totalSum_at cfg self index
         in (totalSum, push4 s (cumulative_bars cfg previousTotal totalSum index datum))))"

definition cumulative_series :: "config \<Rightarrow> row list \<Rightarrow> series" where
  "cumulative_series cfg self =
     snd (foldl (cumulative_row cfg self) (Num 0, no_series) (enumerate 0 self))"

subsection \<open>transformProps: the category axis and the result\<close>

text \<open>
  The callback of \<^verbatim>\<open>transformedData.map\<close>: the column pushed on \<^verbatim>\<open>xAxisColumns\<close> and
  the label returned. \<^verbatim>\<open>!value\<close> holds for undefined, null, false, 0 and the empty
  string; of what is left, only \<^verbatim>\<open>true\<close> is neither a string nor a number, and
  \<^verbatim>\<open>String\<close> is written out for the values that are not numbers.
\<close>

fun falsy :: "jsval \<Rightarrow> bool" where
  "falsy JUndefined = True"
| "falsy JNull = True"
| "falsy (JBool b) = (\<not> b)"
| "falsy (JNum x) = (x = 0)"
| "falsy (JStr s) = (s = [])"

fun to_label :: "jsval \<Rightarrow> jsval" where
  "to_label (JStr s) = JStr s"
| "to_label (JNum x) = JNum x"
| "to_label (JBool b) = JStr (if b then ''true'' else ''false'')"
| "to_label JNull = JStr ''null''"
| "to_label JUndefined = JStr ''undefined''"

definition xAxis_entry :: "string \<Rightarrow> config \<Rightarrow> row \<Rightarrow> string \<times> jsval" where
  "xAxis_entry NULL_STRING cfg r =
     (let (column, value) =
            (case given (breakdownName cfg) of
               Some b \<Rightarrow>
                 if get_dim r b \<noteq> JStr (totalMark cfg) then (b, get_dim r b)
                 else (xAxisName cfg, get_dim r (xAxisName cfg))
             | None \<Rightarrow> (xAxisName cfg, get_dim r (xAxisName cfg)));
          value = (if falsy value then JStr NULL_STRING else value)
      in (column, to_label value))"

text \<open>What \<^verbatim>\<open>transformProps\<close> hands to the chart: the four series and the category axis.\<close>

record transformed =
  barSeries :: series
  xAxisData :: "jsval list"
  xAxisColumns :: "string list"

definition transformProps :: "string \<Rightarrow> config \<Rightarrow> row list \<Rightarrow> transformed" where
  "transformProps NULL_STRING cfg data =
     (let (transformedData, s) =
            (if useNonCumulative cfg then (data, nonCumulative_series cfg data)
             else (let transformed =
                         transformer data (xAxisName cfg) (metricLabel cfg) (breakdownName cfg)
                           (totalMark cfg) (showTotal cfg)
                   in (transformed, cumulative_series cfg transformed)))
      in \<lparr>barSeries = s,
          xAxisData = map (\<lambda>r. snd (xAxis_entry NULL_STRING cfg r)) transformedData,
          xAxisColumns = map (\<lambda>r. fst (xAxis_entry NULL_STRING cfg r)) transformedData\<rparr>)"

subsection \<open>The loops, index by index\<close>

text \<open>
  Definitions for the statements below; none of them is in the source. Before the pass
  at \<open>index\<close> the variable \<^verbatim>\<open>previousTotal\<close> holds 0 (first pass) or the running total
  of the row before; \<open>bars_at\<close> is what the pass at \<open>index\<close> pushes; \<open>series_of\<close> lays
  the points of the passes out as the four arrays.
\<close>

definition previousTotal_at :: "config \<Rightarrow> row list \<Rightarrow> nat \<Rightarrow> jsnum" where
  "previousTotal_at cfg self index =
     (if index = 0 then Num 0 else totalSum_at cfg self (index - 1))"

definition bars_at :: "config \<Rightarrow> row list \<Rightarrow> nat \<Rightarrow> bars" where
  "bars_at cfg self index =
     cumulative_bars cfg (previousTotal_at cfg self index) (totalSum_at cfg self index) index
       (self ! index)"

definition series_of :: "bars list \<Rightarrow> series" where
  "series_of bs =
     \<lparr>assistData = map b_assist bs, increaseData = map b_increase bs,
      decreaseData = map b_decrease bs, totalData = map b_total bs\<rparr>"

text \<open>A point holds a bar when its value is not the sentinel.\<close>

definition holds_bar :: "point \<Rightarrow> bool" where
  "holds_bar p = (p_value p \<noteq> TOKEN)"

subsection \<open>Example inputs\<close>

text \<open>
  Scenario A of the specification: three quarters, no breakdown, with the total row.
\<close>

definition quarters_config :: config where
  "quarters_config =
     \<lparr>xAxisName = ''cat'', breakdownName = None, metricLabel = ''m'',
      metricStartLabel = None, metricEndLabel = None, nonCumulative = False, showTotal = True,
      totalMark = ''Total'', legendIncrease = ''Increase'', legendDecrease = ''Decrease'',
      increaseColor = (90, 193, 137), decreaseColor = (224, 67, 85), legendState = Map.empty\<rparr>"

definition quarter :: "string \<Rightarrow> real \<Rightarrow> row" where
  "quarter c v = \<lparr>dims = [''cat'' \<mapsto> JStr c], mets = [''m'' \<mapsto> Num v]\<rparr>"

definition quarters :: "row list" where
  "quarters = [quarter ''Q1'' 10, quarter ''Q2'' (- 5), quarter ''Q3'' 20]"

text \<open>Scenario B: the non-cumulative mode on rows with a start and an end column.\<close>

definition spans_config :: config where
  "spans_config =
     \<lparr>xAxisName = ''cat'', breakdownName = None, metricLabel = ''m'',
      metricStartLabel = Some ''start'', metricEndLabel = Some ''end'', nonCumulative = True,
      showTotal = True, totalMark = ''Total'', legendIncrease = ''Increase'',
      legendDecrease = ''Decrease'', increaseColor = (90, 193, 137),
      decreaseColor = (224, 67, 85), legendState = Map.empty\<rparr>"

definition span :: "string \<Rightarrow> real \<Rightarrow> real \<Rightarrow> row" where
  "span c a b = \<lparr>dims = [''cat'' \<mapsto> JStr c], mets = [''start'' \<mapsto> Num a, ''end'' \<mapsto> Num b]\<rparr>"

definition spans :: "row list" where
  "spans = [span ''A'' 100 80, span ''B'' 0 50, span ''Total'' 0 130]"

text \<open>Cumulative mode without the total row, and with a breakdown column.\<close>

definition plain_config :: config where
  "plain_config = quarters_config\<lparr>showTotal := False\<rparr>"

definition breakdown_config :: config where
  "breakdown_config = quarters_config\<lparr>breakdownName := Some ''kind'', showTotal := False\<rparr>"

definition item :: "string \<Rightarrow> string \<Rightarrow> jsnum \<Rightarrow> row" where
  "item c k v = \<lparr>dims = [''cat'' \<mapsto> JStr c, ''kind'' \<mapsto> JStr k], mets = [''m'' \<mapsto> v]\<rparr>"

text \<open>
  The grouped sequence of scenario A (the three quarters and the grand total), a
  sequence whose running total crosses zero, and a breakdown with its total row.
\<close>

definition quarters_grouped :: "row list" where
  "quarters_grouped =
     transformer quarters (xAxisName quarters_config) (metricLabel quarters_config)
       (breakdownName quarters_config) (totalMark quarters_config) (showTotal quarters_config)"

definition crossing :: "row list" where
  "crossing = [quarter ''A'' 10, quarter ''B'' (- 5), quarter ''C'' (- 15)]"

definition kinds_config :: config where
  "kinds_config = quarters_config\<lparr>breakdownName := Some ''kind''\<rparr>"

definition kinds_grouped :: "row list" where
  "kinds_grouped =
     transformer [item ''A'' ''b1'' (Num 5), item ''A'' ''b2'' (Num 3)] (xAxisName kinds_config)
       (metricLabel kinds_config) (breakdownName kinds_config) (totalMark kinds_config)
       (showTotal kinds_config)"

text \<open>
  A breakdown whose second row has a null metric, and the same rows with 0 for the null.
\<close>

definition null_metric_rows :: "row list" where
  "null_metric_rows = [item ''A'' ''b1'' (Num 5), item ''A'' ''b2'' Null]"

definition zero_metric_rows :: "row list" where
  "zero_metric_rows = [item ''A'' ''b1'' (Num 5), item ''A'' ''b2'' (Num 0)]"

text \<open>
  What the tooltip callback receives on hovering a category: one entry per series, the
  assist series first. \<open>rise a b\<close> is the increase point of the non-cumulative mode for
  a row that starts at \<open>a\<close> and ends at \<open>b\<close>. The formatters of the examples print
  \<open>#\<close> for every number, and \<open>rows_text\<close> joins the cells of the rows.
\<close>

definition rise :: "real \<Rightarrow> real \<Rightarrow> point" where
  "rise a b =
     \<lparr>p_value = Value (Num (b - a)), p_originalValue = Num (b - a), p_totalSum = Num b,
      p_start = Num a, p_end = Num b, p_itemStyle = None\<rparr>"

definition hover :: "point \<Rightarrow> point \<Rightarrow> point \<Rightarrow> point \<Rightarrow> callback_params list" where
  "hover a i d t =
     [\<lparr>cb_seriesName = ''assist'', cb_name = JStr ''A'', cb_dataIndex = 0, cb_data = a\<rparr>,
      \<lparr>cb_seriesName = ''Increase'', cb_name = JStr ''A'', cb_dataIndex = 0, cb_data = i\<rparr>,
      \<lparr>cb_seriesName = ''Decrease'', cb_name = JStr ''A'', cb_dataIndex = 0, cb_data = d\<rparr>,
      \<lparr>cb_seriesName = ''Total'', cb_name = JStr ''A'', cb_dataIndex = 0, cb_data = t\<rparr>]"

definition rows_text :: "string list list \<Rightarrow> string option \<Rightarrow> string" where
  "rows_text rows title = concat (map (\<lambda>r. concat r @ ''|'') rows)"

definition hash :: "jsnum \<Rightarrow> string" where
  "hash n = ''#''"

subsection \<open>The specification's wording, for comparison\<close>

text \<open>
  The running total as the specification words it: the sum of the metric values (0 for
  a missing one) up to and including \<open>index\<close>, skipping the rows that are total
  markers, except the row at index 0.
\<close>

definition spec_totalSum :: "config \<Rightarrow> row list \<Rightarrow> nat \<Rightarrow> jsnum" where
  "spec_totalSum cfg self index =
     foldl (\<lambda>prev (i, cur).
              if isTotal cfg cur \<and> i \<noteq> 0 then prev
              else js_plus prev (nullish (get_met cur (metricLabel cfg)) (Num 0)))
       (Num 0) (enumerate 0 (take (index + 1) self))"

text \<open>
  The round trip of the specification: \<open>increase[i] - decrease[i]\<close>, a sentinel
  counting as 0.
\<close>

fun sentinel_as_zero :: "series_value \<Rightarrow> jsnum" where
  "sentinel_as_zero TOKEN = Num 0"
| "sentinel_as_zero (Value v) = v"

definition roundtrip :: "series \<Rightarrow> nat \<Rightarrow> jsnum" where
  "roundtrip s i =
     js_minus (sentinel_as_zero (p_value (increaseData s ! i)))
              (sentinel_as_zero (p_value (decreaseData s ! i)))"

text \<open>
  The value of a bar in cumulative mode, from the previous total, the running total and
  the metric of the row: the variable \<^verbatim>\<open>value\<close> of the loop after the clipping.
\<close>

definition clipped :: "jsnum \<Rightarrow> jsnum \<Rightarrow> jsnum \<Rightarrow> jsnum" where
  "clipped previousTotal totalSum originalValue =
     (if strict_neq (Math_sign previousTotal) (Math_sign totalSum)
      then js_times (Math_sign originalValue)
             (js_minus (Math_abs originalValue) (Math_abs previousTotal))
      else originalValue)"

text \<open>
  The same value as the claim words it: clipped only when the running total crossed
  zero, that is, when the previous total and the running total lie on opposite sides of
  zero.
\<close>

definition spec_crossed :: "jsnum \<Rightarrow> jsnum \<Rightarrow> bool" where
  "spec_crossed previousTotal totalSum =
     (js_lt previousTotal (Num 0) \<and> js_gt totalSum (Num 0) \<or>
      js_gt previousTotal (Num 0) \<and> js_lt totalSum (Num 0))"

definition spec_clipped :: "jsnum \<Rightarrow> jsnum \<Rightarrow> jsnum \<Rightarrow> jsnum" where
  "spec_clipped previousTotal totalSum originalValue =
     (if spec_crossed previousTotal totalSum
      then js_times (Math_sign originalValue)
             (js_minus (Math_abs originalValue) (Math_abs previousTotal))
      else originalValue)"

text \<open>A running total that comes back to zero without crossing it: 10, then -10.\<close>

definition touching :: "row list" where
  "touching = [quarter ''A'' 10, quarter ''B'' (- 10)]"

section \<open>Properties\<close>

subsection \<open>The loops as maps over the rows\<close>

lemma push4_series_of: "push4 (series_of bs) b = series_of (bs @ [b])"
  by (simp add: push4_def series_of_def)

lemma no_series_of: "no_series = series_of []"
  by (simp add: no_series_def series_of_def)

lemma foldl_push4: "foldl (\<lambda>s r. push4 s (f r)) (series_of bs) xs = series_of (bs @ map f xs)"
  by (induction xs arbitrary: bs) (simp_all add: push4_series_of)

lemma nonCumulative_series_eq:
  "nonCumulative_series cfg data = series_of (map (nonCumulative_bars cfg) data)"
  unfolding nonCumulative_series_def no_series_of by (simp add: foldl_push4)

text \<open>The running total of a row is one \<^verbatim>\<open>reduce\<close> step past the running total before it.\<close>

lemma totalSum_at_step:
  assumes "i < length self"
  shows "totalSum_at cfg self i = reduce_step cfg (previousTotal_at cfg self i) (i, self ! i)"
proof (cases i)
  case 0
  with assms have "take (Suc 0) self = [self ! 0]"
    by (cases self) simp_all
  with 0 show ?thesis
    by (simp add: totalSum_at_def previousTotal_at_def)
next
  case (Suc k)
  with assms have t: "take (Suc (Suc k)) self = take (Suc k) self @ [self ! Suc k]"
    by (simp add: take_Suc_conv_app_nth)
  from Suc assms have l: "length (take (Suc k) self) = Suc k" by simp
  show ?thesis
    unfolding Suc totalSum_at_def previousTotal_at_def
    by (simp only: Suc_eq_plus1[symmetric] t enumerate_append_eq foldl_append l)
       (simp add: totalSum_at_def)
qed

lemma cumulative_fold:
  "n \<le> length self \<Longrightarrow>
   foldl (cumulative_row cfg self) (Num 0, no_series) (enumerate 0 (take n self)) =
     (previousTotal_at cfg self n, series_of (map (bars_at cfg self) [0..<n]))"
proof (induction n)
  case 0
  show ?case by (simp add: previousTotal_at_def no_series_of)
next
  case (Suc n)
  then have t: "take (Suc n) self = take n self @ [self ! n]" and l: "length (take n self) = n"
    by (simp_all add: take_Suc_conv_app_nth)
  from Suc have IH:
    "foldl (cumulative_row cfg self) (Num 0, no_series) (enumerate 0 (take n self)) =
       (previousTotal_at cfg self n, series_of (map (bars_at cfg self) [0..<n]))"
    by simp
  have "foldl (cumulative_row cfg self) (Num 0, no_series) (enumerate 0 (take (Suc n) self)) =
        cumulative_row cfg self
          (previousTotal_at cfg self n, series_of (map (bars_at cfg self) [0..<n])) (n, self ! n)"
    by (simp only: t enumerate_append_eq foldl_append l IH) simp
  also have "\<dots> =
        (previousTotal_at cfg self (Suc n), series_of (map (bars_at cfg self) [0..<Suc n]))"
    by (simp add: cumulative_row_def push4_series_of bars_at_def previousTotal_at_def Let_def)
  finally show ?case .
qed

lemma cumulative_series_eq:
  "cumulative_series cfg self = series_of (map (bars_at cfg self) [0..<length self])"
  using cumulative_fold [of "length self" self cfg] by (simp add: cumulative_series_def)

text \<open>The result of \<open>transformProps\<close> in each mode.\<close>

lemma transformProps_nonCumulative:
  "useNonCumulative cfg \<Longrightarrow>
   transformProps NULL_STRING cfg data =
     \<lparr>barSeries = series_of (map (nonCumulative_bars cfg) data),
      xAxisData = map (\<lambda>r. snd (xAxis_entry NULL_STRING cfg r)) data,
      xAxisColumns = map (\<lambda>r. fst (xAxis_entry NULL_STRING cfg r)) data\<rparr>"
  by (simp add: transformProps_def nonCumulative_series_eq)

lemma transformProps_cumulative:
  "\<not> useNonCumulative cfg \<Longrightarrow>
   transformProps NULL_STRING cfg data =
     (let self = transformer data (xAxisName cfg) (metricLabel cfg) (breakdownName cfg)
                   (totalMark cfg) (showTotal cfg)
      in \<lparr>barSeries = series_of (map (bars_at cfg self) [0..<length self]),
          xAxisData = map (\<lambda>r. snd (xAxis_entry NULL_STRING cfg r)) self,
          xAxisColumns = map (\<lambda>r. fst (xAxis_entry NULL_STRING cfg r)) self\<rparr>)"
  by (simp add: transformProps_def cumulative_series_eq Let_def)

lemma length_series_of:
  "length (assistData (series_of bs)) = length bs"
  "length (increaseData (series_of bs)) = length bs"
  "length (decreaseData (series_of bs)) = length bs"
  "length (totalData (series_of bs)) = length bs"
  by (simp_all add: series_of_def)

lemma nth_series_of:
  "i < length bs \<Longrightarrow> assistData (series_of bs) ! i = b_assist (bs ! i)"
  "i < length bs \<Longrightarrow> increaseData (series_of bs) ! i = b_increase (bs ! i)"
  "i < length bs \<Longrightarrow> decreaseData (series_of bs) ! i = b_decrease (bs ! i)"
  "i < length bs \<Longrightarrow> totalData (series_of bs) ! i = b_total (bs ! i)"
  by (simp_all add: series_of_def)

subsection \<open>Shape of the four series\<close>

text \<open>
  Claim C2. For every table and configuration, in both modes, the four series
  (assist, increase, decrease, total) have the same length, the number of entries of
  the category axis.
\<close>

theorem series_lengths:
  "length (assistData (barSeries (transformProps NULL_STRING cfg data))) =
     length (xAxisData (transformProps NULL_STRING cfg data)) \<and>
   length (increaseData (barSeries (transformProps NULL_STRING cfg data))) =
     length (xAxisData (transformProps NULL_STRING cfg data)) \<and>
   length (decreaseData (barSeries (transformProps NULL_STRING cfg data))) =
     length (xAxisData (transformProps NULL_STRING cfg data)) \<and>
   length (totalData (barSeries (transformProps NULL_STRING cfg data))) =
     length (xAxisData (transformProps NULL_STRING cfg data))"
proof (cases "useNonCumulative cfg")
  case True
  then show ?thesis
    by (simp add: transformProps_nonCumulative length_series_of)
next
  case False
  then show ?thesis
    by (simp add: transformProps_cumulative length_series_of Let_def)
qed

text \<open>On scenario A the axis has the three quarters and the total: four entries.\<close>

theorem series_lengths_witness:
  "length (xAxisData (transformProps ''<NULL>'' quarters_config quarters)) = 4 \<and>
   length (assistData (barSeries (transformProps ''<NULL>'' quarters_config quarters))) = 4 \<and>
   length (increaseData (barSeries (transformProps ''<NULL>'' quarters_config quarters))) = 4 \<and>
   length (decreaseData (barSeries (transformProps ''<NULL>'' quarters_config quarters))) = 4 \<and>
   length (totalData (barSeries (transformProps ''<NULL>'' quarters_config quarters))) = 4"
proof -
  have "length (xAxisData (transformProps ''<NULL>'' quarters_config quarters)) = 4"
    by code_simp
  with series_lengths [of "''<NULL>''" quarters_config quarters] show ?thesis
    by simp
qed

lemma one_bar_nonCumulative:
  "length (filter holds_bar
     [b_increase (nonCumulative_bars cfg r), b_decrease (nonCumulative_bars cfg r),
      b_total (nonCumulative_bars cfg r)]) = 1"
  by (simp add: nonCumulative_bars_def Let_def holds_bar_def token_def only_value_def)

lemma one_bar_cumulative:
  "length (filter holds_bar
     [b_increase (cumulative_bars cfg p t i r), b_decrease (cumulative_bars cfg p t i r),
      b_total (cumulative_bars cfg p t i r)]) = 1"
  by (simp add: cumulative_bars_def Let_def holds_bar_def token_def only_value_def)

text \<open>
  Claim C1. For every table and configuration, in both modes, at every index exactly
  one of the increase, decrease and total series holds a value that is not the
  sentinel \<open>TOKEN\<close>; the other two hold the sentinel.
\<close>

theorem exactly_one_bar:
  assumes "i < length (xAxisData (transformProps NULL_STRING cfg data))"
  shows "length (filter holds_bar
           [increaseData (barSeries (transformProps NULL_STRING cfg data)) ! i,
            decreaseData (barSeries (transformProps NULL_STRING cfg data)) ! i,
            totalData (barSeries (transformProps NULL_STRING cfg data)) ! i]) = 1"
proof (cases "useNonCumulative cfg")
  case True
  with assms have "i < length data"
    by (simp add: transformProps_nonCumulative)
  with True show ?thesis
    by (simp only: transformProps_nonCumulative transformed.simps nth_series_of length_map
          nth_map one_bar_nonCumulative)
next
  case False
  define self where
    "self = transformer data (xAxisName cfg) (metricLabel cfg) (breakdownName cfg)
              (totalMark cfg) (showTotal cfg)"
  from False assms have i: "i < length self"
    by (simp add: transformProps_cumulative Let_def self_def)
  from False have "barSeries (transformProps NULL_STRING cfg data) =
      series_of (map (bars_at cfg self) [0..<length self])"
    by (simp add: transformProps_cumulative Let_def self_def)
  with i show ?thesis
    by (simp only: nth_series_of length_map nth_map length_upt nth_upt diff_zero add_0
          bars_at_def one_bar_cumulative)
qed

text \<open>On scenario A, index 1 (Q2, the drop of 5): the decrease series holds the bar.\<close>

theorem exactly_one_bar_witness:
  "1 < length (xAxisData (transformProps ''<NULL>'' quarters_config quarters)) \<and>
   length (filter holds_bar
           [increaseData (barSeries (transformProps ''<NULL>'' quarters_config quarters)) ! 1,
            decreaseData (barSeries (transformProps ''<NULL>'' quarters_config quarters)) ! 1,
            totalData (barSeries (transformProps ''<NULL>'' quarters_config quarters)) ! 1]) = 1 \<and>
   p_value (decreaseData (barSeries (transformProps ''<NULL>'' quarters_config quarters)) ! 1)
     = Value (Num 5)"
proof -
  have h: "1 < length (xAxisData (transformProps ''<NULL>'' quarters_config quarters))"
    by code_simp
  have v: "p_value (decreaseData (barSeries (transformProps ''<NULL>'' quarters_config quarters)) ! 1)
     = Value (Num 5)"
    by code_simp
  from h v exactly_one_bar [OF h] show ?thesis by simp
qed

subsection \<open>Non-cumulative mode\<close>

lemma read_metric_given:
  "l \<noteq> [] \<Longrightarrow>
   read_metric (Some l) r =
     (if get_met r l = Null \<or> get_met r l = Undefined then Num 0 else ToNumber (get_met r l))"
  by (simp add: read_metric_def)

lemma js_lt_not_ge: "js_lt a (Num 0) \<Longrightarrow> \<not> js_ge a (Num 0)"
  by (cases a) (simp_all add: js_lt_def js_ge_def)

lemma useNonCumulative_labels:
  "useNonCumulative cfg \<Longrightarrow>
   \<exists>s e. metricStartLabel cfg = Some s \<and> s \<noteq> [] \<and> metricEndLabel cfg = Some e \<and> e \<noteq> []"
  by (cases "metricStartLabel cfg"; cases "metricEndLabel cfg")
     (auto simp: useNonCumulative_def split: if_splits)

text \<open>
  Claim C5. In non-cumulative mode every row is processed on its own: \<open>start\<close> and
  \<open>end\<close> are read from the configured start and end metric columns, 0 when the cell is
  absent or null, and \<open>delta = end - start\<close>. A total-marker row gives a bar of the
  total series from 0 to \<open>end\<close>, with the sentinel in increase, decrease and assist.
  Any other row gives the transparent assist bar \<open>start\<close>, the sentinel in total, and
  \<open>delta\<close> in increase when \<open>delta >= 0\<close>, or \<open>-delta\<close> in decrease when \<open>delta < 0\<close>
  (the sentinel in the other); the point carries \<open>start\<close>, \<open>end\<close> and
  \<open>originalValue = delta\<close>.
\<close>

theorem nonCumulative_row:
  fixes NULL_STRING :: string
  assumes mode: "useNonCumulative cfg" and i: "i < length data"
  defines "r \<equiv> data ! i"
  defines "s \<equiv> barSeries (transformProps NULL_STRING cfg data)"
  defines "start \<equiv> read_metric (metricStartLabel cfg) r"
  defines "end \<equiv> read_metric (metricEndLabel cfg) r"
  defines "delta \<equiv> js_minus end start"
  defines "read \<equiv> \<lambda>l. if get_met r l = Null \<or> get_met r l = Undefined then Num 0
                        else ToNumber (get_met r l)"
  shows "(\<exists>ls le. metricStartLabel cfg = Some ls \<and> metricEndLabel cfg = Some le \<and>
            start = read ls \<and> end = read le) \<and>
         (isTotal cfg r \<longrightarrow>
            totalData s ! i =
              \<lparr>p_value = Value end, p_originalValue = end, p_totalSum = end, p_start = Num 0,
               p_end = end, p_itemStyle = None\<rparr> \<and>
            increaseData s ! i = token \<and> decreaseData s ! i = token \<and>
            assistData s ! i = token) \<and>
         (\<not> isTotal cfg r \<longrightarrow>
            p_value (assistData s ! i) = Value start \<and>
            p_itemStyle (assistData s ! i) = Some \<lparr>color = Transparent, opacity = None\<rparr> \<and>
            totalData s ! i = token \<and>
            (js_ge delta (Num 0) \<longrightarrow>
               increaseData s ! i =
                 \<lparr>p_value = Value delta, p_originalValue = delta, p_totalSum = end,
                  p_start = start, p_end = end, p_itemStyle = None\<rparr> \<and>
               decreaseData s ! i = token) \<and>
            (js_lt delta (Num 0) \<longrightarrow>
               decreaseData s ! i =
                 \<lparr>p_value = Value (js_neg delta), p_originalValue = delta, p_totalSum = end,
                  p_start = start, p_end = end, p_itemStyle = None\<rparr> \<and>
               increaseData s ! i = token))"
proof -
  from mode obtain ls le where l: "metricStartLabel cfg = Some ls" "ls \<noteq> []"
      "metricEndLabel cfg = Some le" "le \<noteq> []"
    using useNonCumulative_labels by blast
  then have reads: "\<exists>ls le. metricStartLabel cfg = Some ls \<and> metricEndLabel cfg = Some le \<and>
            start = read ls \<and> end = read le"
    by (simp add: start_def end_def read_def read_metric_given)
  have s: "s = series_of (map (nonCumulative_bars cfg) data)"
    using mode by (simp add: s_def transformProps_nonCumulative)
  have b: "assistData s ! i = b_assist (nonCumulative_bars cfg r)"
      "increaseData s ! i = b_increase (nonCumulative_bars cfg r)"
      "decreaseData s ! i = b_decrease (nonCumulative_bars cfg r)"
      "totalData s ! i = b_total (nonCumulative_bars cfg r)"
    using i by (simp_all add: s nth_series_of r_def)
  have tot: "isTotal cfg r \<Longrightarrow>
           totalData s ! i =
             \<lparr>p_value = Value end, p_originalValue = end, p_totalSum = end, p_start = Num 0,
              p_end = end, p_itemStyle = None\<rparr> \<and>
           increaseData s ! i = token \<and> decreaseData s ! i = token \<and> assistData s ! i = token"
    by (simp add: b nonCumulative_bars_def Let_def end_def)
  have assist: "\<not> isTotal cfg r \<Longrightarrow>
           p_value (assistData s ! i) = Value start \<and>
           p_itemStyle (assistData s ! i) = Some \<lparr>color = Transparent, opacity = None\<rparr> \<and>
           totalData s ! i = token"
    by (simp add: b nonCumulative_bars_def Let_def start_def only_value_def)
  have up: "\<not> isTotal cfg r \<Longrightarrow> js_ge delta (Num 0) \<Longrightarrow>
           increaseData s ! i =
             \<lparr>p_value = Value delta, p_originalValue = delta, p_totalSum = end, p_start = start,
              p_end = end, p_itemStyle = None\<rparr> \<and>
           decreaseData s ! i = token"
    by (simp add: b nonCumulative_bars_def Let_def start_def end_def delta_def)
  have down: "\<not> isTotal cfg r \<Longrightarrow> js_lt delta (Num 0) \<Longrightarrow>
           decreaseData s ! i =
             \<lparr>p_value = Value (js_neg delta), p_originalValue = delta, p_totalSum = end,
              p_start = start, p_end = end, p_itemStyle = None\<rparr> \<and>
           increaseData s ! i = token"
    using js_lt_not_ge [of delta]
    by (simp add: b nonCumulative_bars_def Let_def start_def end_def delta_def)
  from reads tot assist up down show ?thesis by blast
qed


text \<open>
  Scenario B (100 to 80: a decrease of 20 on the base 100), a rise from 0 to 50, and a
  total row.
\<close>

theorem nonCumulative_row_witness:
  "useNonCumulative spans_config \<and> 2 < length spans \<and>
   decreaseData (barSeries (transformProps ''<NULL>'' spans_config spans)) ! 0 =
     \<lparr>p_value = Value (Num 20), p_originalValue = Num (- 20), p_totalSum = Num 80,
      p_start = Num 100, p_end = Num 80, p_itemStyle = None\<rparr> \<and>
   increaseData (barSeries (transformProps ''<NULL>'' spans_config spans)) ! 0 = token \<and>
   p_value (assistData (barSeries (transformProps ''<NULL>'' spans_config spans)) ! 0) =
     Value (Num 100) \<and>
   increaseData (barSeries (transformProps ''<NULL>'' spans_config spans)) ! 1 =
     \<lparr>p_value = Value (Num 50), p_originalValue = Num 50, p_totalSum = Num 50,
      p_start = Num 0, p_end = Num 50, p_itemStyle = None\<rparr> \<and>
   totalData (barSeries (transformProps ''<NULL>'' spans_config spans)) ! 2 =
     \<lparr>p_value = Value (Num 130), p_originalValue = Num 130, p_totalSum = Num 130,
      p_start = Num 0, p_end = Num 130, p_itemStyle = None\<rparr> \<and>
   assistData (barSeries (transformProps ''<NULL>'' spans_config spans)) ! 2 = token"
proof -
  have m: "useNonCumulative spans_config" by code_simp
  have i: "0 < length spans" "1 < length spans" "2 < length spans" by code_simp+
  have t: "\<not> isTotal spans_config (spans ! 0)" "\<not> isTotal spans_config (spans ! 1)"
      "isTotal spans_config (spans ! 2)"
    by code_simp+
  have v: "read_metric (metricStartLabel spans_config) (spans ! 0) = Num 100"
      "read_metric (metricEndLabel spans_config) (spans ! 0) = Num 80"
      "read_metric (metricStartLabel spans_config) (spans ! 1) = Num 0"
      "read_metric (metricEndLabel spans_config) (spans ! 1) = Num 50"
      "read_metric (metricEndLabel spans_config) (spans ! 2) = Num 130"
    by code_simp+
  have a: "js_minus (Num 80) (Num 100) = Num (- 20)" "js_neg (Num (- 20)) = Num 20"
      "js_lt (Num (- 20)) (Num 0)" "js_minus (Num 50) (Num 0) = Num 50" "js_ge (Num 50) (Num 0)"
    by (simp_all add: js_minus_def js_neg_def js_lt_def js_ge_def)
  have "decreaseData (barSeries (transformProps ''<NULL>'' spans_config spans)) ! 0 =
     \<lparr>p_value = Value (Num 20), p_originalValue = Num (- 20), p_totalSum = Num 80,
      p_start = Num 100, p_end = Num 80, p_itemStyle = None\<rparr> \<and>
   increaseData (barSeries (transformProps ''<NULL>'' spans_config spans)) ! 0 = token \<and>
   p_value (assistData (barSeries (transformProps ''<NULL>'' spans_config spans)) ! 0) =
     Value (Num 100)"
    using nonCumulative_row [OF m i(1), of "''<NULL>''"] t(1) by (simp add: v a)
  moreover
  have "increaseData (barSeries (transformProps ''<NULL>'' spans_config spans)) ! 1 =
     \<lparr>p_value = Value (Num 50), p_originalValue = Num 50, p_totalSum = Num 50,
      p_start = Num 0, p_end = Num 50, p_itemStyle = None\<rparr>"
    using nonCumulative_row [OF m i(2), of "''<NULL>''"] t(2) by (simp add: v a del: One_nat_def)
  moreover
  have "totalData (barSeries (transformProps ''<NULL>'' spans_config spans)) ! 2 =
     \<lparr>p_value = Value (Num 130), p_originalValue = Num 130, p_totalSum = Num 130,
      p_start = Num 0, p_end = Num 130, p_itemStyle = None\<rparr> \<and>
   assistData (barSeries (transformProps ''<NULL>'' spans_config spans)) ! 2 = token"
    using nonCumulative_row [OF m i(3), of "''<NULL>''"] t(3) by (simp add: v a)
  ultimately show ?thesis
    using m i(3) by blast
qed

lemma useNonCumulative_showTotal:
  "useNonCumulative (cfg\<lparr>showTotal := b\<rparr>) = useNonCumulative cfg"
  by (simp add: useNonCumulative_def)

lemma nonCumulative_bars_showTotal:
  "nonCumulative_bars (cfg\<lparr>showTotal := b\<rparr>) = nonCumulative_bars cfg"
  by (rule ext) (simp add: nonCumulative_bars_def isTotal_def split: option.splits)

lemma xAxis_entry_showTotal:
  "xAxis_entry NULL_STRING (cfg\<lparr>showTotal := b\<rparr>) r = xAxis_entry NULL_STRING cfg r"
  by (simp add: xAxis_entry_def split: option.splits)

text \<open>
  Claim C10. In non-cumulative mode the rows are passed through one to one, with no
  grouping, no aggregation and no total row added: the category axis has one entry per
  input row, in the order of the input, each series has the points of the rows in that
  order, and the option \<open>showTotal\<close> changes nothing.
\<close>

theorem nonCumulative_passes_rows:
  assumes "useNonCumulative cfg"
  shows "xAxisData (transformProps NULL_STRING cfg data) =
           map (\<lambda>r. snd (xAxis_entry NULL_STRING cfg r)) data \<and>
         length (xAxisData (transformProps NULL_STRING cfg data)) = length data \<and>
         barSeries (transformProps NULL_STRING cfg data) =
           series_of (map (nonCumulative_bars cfg) data) \<and>
         transformProps NULL_STRING (cfg\<lparr>showTotal := b\<rparr>) data =
           transformProps NULL_STRING cfg data"
  using assms
  by (simp add: transformProps_nonCumulative useNonCumulative_showTotal
        nonCumulative_bars_showTotal xAxis_entry_showTotal)

text \<open>The three rows of the example give three labels, with and without \<open>showTotal\<close>.\<close>

theorem nonCumulative_passes_rows_witness:
  "useNonCumulative spans_config \<and>
   xAxisData (transformProps ''<NULL>'' spans_config spans) = [JStr ''A'', JStr ''B'', JStr ''Total''] \<and>
   length (xAxisData (transformProps ''<NULL>'' spans_config spans)) = 3 \<and>
   transformProps ''<NULL>'' (spans_config\<lparr>showTotal := False\<rparr>) spans =
     transformProps ''<NULL>'' spans_config spans"
proof -
  have m: "useNonCumulative spans_config" by code_simp
  have x: "map (\<lambda>r. snd (xAxis_entry ''<NULL>'' spans_config r)) spans =
      [JStr ''A'', JStr ''B'', JStr ''Total'']"
    by code_simp
  have l: "length spans = 3" by code_simp
  from nonCumulative_passes_rows [OF m, of "''<NULL>''" spans False] m x l show ?thesis
    by simp
qed

subsection \<open>Cumulative mode\<close>

lemma nth_cumulative_series:
  assumes "i < length self"
  shows "assistData (cumulative_series cfg self) ! i = b_assist (bars_at cfg self i)"
    and "increaseData (cumulative_series cfg self) ! i = b_increase (bars_at cfg self i)"
    and "decreaseData (cumulative_series cfg self) ! i = b_decrease (bars_at cfg self i)"
    and "totalData (cumulative_series cfg self) ! i = b_total (bars_at cfg self i)"
  using assms by (simp_all add: cumulative_series_eq nth_series_of)

lemma barSeries_cumulative:
  "\<not> useNonCumulative cfg \<Longrightarrow>
   barSeries (transformProps NULL_STRING cfg data) =
     cumulative_series cfg
       (transformer data (xAxisName cfg) (metricLabel cfg) (breakdownName cfg) (totalMark cfg)
          (showTotal cfg))"
  by (simp add: transformProps_def Let_def)

lemma isTotal_counted:
  "\<not> isTotal cfg r \<Longrightarrow>
   reduce_step cfg prev (i, r) = js_plus prev (nullish (get_met r (metricLabel cfg)) (Num 0))"
  by (auto simp: isTotal_def reduce_step_def split: option.splits)

text \<open>
  Claim C3, as the code has it. In cumulative mode, for every grouped row sequence and
  every index \<open>i\<close>: the running total of a row that is not a total row is the running
  total before it (0 before the first row) plus the metric of the row (0 for a missing
  one). With a breakdown column the running total skips exactly the rows after index 0
  whose breakdown cell is the total marker; without one it skips exactly the rows whose
  category is the total marker, the row at index 0 included. A total row puts its
  running total in the total series.
\<close>

theorem cumulative_running_total:
  fixes cfg :: config
  assumes i: "i < length self"
  defines "prev \<equiv> previousTotal_at cfg self i"
  defines "m \<equiv> nullish (get_met (self ! i) (metricLabel cfg)) (Num 0)"
  shows "(\<not> isTotal cfg (self ! i) \<longrightarrow> totalSum_at cfg self i = js_plus prev m) \<and>
         (\<forall>b. given (breakdownName cfg) = Some b \<longrightarrow>
            totalSum_at cfg self i =
              (if get_dim (self ! i) b = JStr (totalMark cfg) \<and> 0 < i then prev
               else js_plus prev m)) \<and>
         (given (breakdownName cfg) = None \<longrightarrow>
            totalSum_at cfg self i =
              (if get_dim (self ! i) (xAxisName cfg) = JStr (totalMark cfg) then prev
               else js_plus prev m)) \<and>
         (isTotal cfg (self ! i) \<longrightarrow>
            p_value (totalData (cumulative_series cfg self) ! i) =
              Value (totalSum_at cfg self i))"
proof -
  have step: "totalSum_at cfg self i = reduce_step cfg prev (i, self ! i)"
    using i by (simp add: totalSum_at_step prev_def)
  have "\<not> isTotal cfg (self ! i) \<Longrightarrow> totalSum_at cfg self i = js_plus prev m"
    by (simp add: step isTotal_counted m_def)
  moreover
  have "given (breakdownName cfg) = Some b \<Longrightarrow>
            totalSum_at cfg self i =
              (if get_dim (self ! i) b = JStr (totalMark cfg) \<and> 0 < i then prev
               else js_plus prev m)" for b
    by (auto simp: step reduce_step_def m_def)
  moreover
  have "given (breakdownName cfg) = None \<Longrightarrow>
            totalSum_at cfg self i =
              (if get_dim (self ! i) (xAxisName cfg) = JStr (totalMark cfg) then prev
               else js_plus prev m)"
    by (auto simp: step reduce_step_def m_def)
  moreover
  have "isTotal cfg (self ! i) \<Longrightarrow>
            p_value (totalData (cumulative_series cfg self) ! i) =
              Value (totalSum_at cfg self i)"
    using i by (simp add: nth_cumulative_series bars_at_def cumulative_bars_def Let_def)
  ultimately show ?thesis by blast
qed

text \<open>
  On scenario A the running totals are 10, 5, 25, and the total row shows 25; with a
  breakdown, the total row of the category keeps the running total 8.
\<close>

theorem cumulative_running_total_witness:
  "3 < length quarters_grouped \<and>
   \<not> isTotal quarters_config (quarters_grouped ! 1) \<and>
   totalSum_at quarters_config quarters_grouped 1 = Num 5 \<and>
   isTotal quarters_config (quarters_grouped ! 3) \<and>
   p_value (totalData (cumulative_series quarters_config quarters_grouped) ! 3) = Value (Num 25) \<and>
   given (breakdownName quarters_config) = None \<and>
   get_dim (quarters_grouped ! 3) (xAxisName quarters_config) = JStr (totalMark quarters_config) \<and>
   totalSum_at quarters_config quarters_grouped 3 = previousTotal_at quarters_config quarters_grouped 3 \<and>
   given (breakdownName kinds_config) = Some ''kind'' \<and>
   totalSum_at kinds_config kinds_grouped 2 = Num 8"
proof -
  have i: "1 < length quarters_grouped" "3 < length quarters_grouped" "2 < length kinds_grouped"
    by code_simp+
  have h: "\<not> isTotal quarters_config (quarters_grouped ! 1)"
      "isTotal quarters_config (quarters_grouped ! 3)"
      "given (breakdownName quarters_config) = None"
      "get_dim (quarters_grouped ! 3) (xAxisName quarters_config) = JStr (totalMark quarters_config)"
      "given (breakdownName kinds_config) = Some ''kind''"
      "get_dim (kinds_grouped ! 2) ''kind'' = JStr (totalMark kinds_config)"
    by code_simp+
  have v: "previousTotal_at quarters_config quarters_grouped 1 = Num 10"
      "nullish (get_met (quarters_grouped ! 1) (metricLabel quarters_config)) (Num 0) = Num (- 5)"
      "previousTotal_at quarters_config quarters_grouped 3 = Num 25"
      "previousTotal_at kinds_config kinds_grouped 2 = Num 8"
    by code_simp+
  have "totalSum_at quarters_config quarters_grouped 1 = Num 5"
    using cumulative_running_total [OF i(1), of quarters_config] h(1)
    by (simp add: v js_plus_def del: One_nat_def)
  moreover
  have "p_value (totalData (cumulative_series quarters_config quarters_grouped) ! 3) = Value (Num 25) \<and>
      totalSum_at quarters_config quarters_grouped 3 = previousTotal_at quarters_config quarters_grouped 3"
    using cumulative_running_total [OF i(2), of quarters_config] h(2,3,4) by (simp add: v)
  moreover
  have "totalSum_at kinds_config kinds_grouped 2 = Num 8"
    using cumulative_running_total [OF i(3), of kinds_config] h(5,6) by (simp add: v)
  ultimately show ?thesis
    using i(2) h by blast
qed

text \<open>
  The claim words the running total as skipping the total markers except at index 0,
  with or without a breakdown. Without a breakdown the source has no exception for
  index 0: a first category named like the total marker, with the metric 5, is a total
  row, is skipped, and shows the total 0 where the wording of the claim gives 5.
\<close>

theorem cumulative_running_total_counterexample:
  "\<not> useNonCumulative plain_config \<and>
   isTotal plain_config
     (transformer [quarter ''Total'' 5] (xAxisName plain_config) (metricLabel plain_config)
        (breakdownName plain_config) (totalMark plain_config) (showTotal plain_config) ! 0) \<and>
   totalSum_at plain_config
     (transformer [quarter ''Total'' 5] (xAxisName plain_config) (metricLabel plain_config)
        (breakdownName plain_config) (totalMark plain_config) (showTotal plain_config)) 0
     = Num 0 \<and>
   spec_totalSum plain_config
     (transformer [quarter ''Total'' 5] (xAxisName plain_config) (metricLabel plain_config)
        (breakdownName plain_config) (totalMark plain_config) (showTotal plain_config)) 0
     = Num 5 \<and>
   p_value (totalData (barSeries (transformProps ''<NULL>'' plain_config [quarter ''Total'' 5])) ! 0)
     = Value (Num 0)"
  by code_simp

lemma bars_not_total:
  assumes "\<not> isTotal cfg r"
  shows "b_total (cumulative_bars cfg p t i r) = token"
    and "js_lt (clipped p t (get_met r (metricLabel cfg))) (Num 0) \<Longrightarrow>
         b_increase (cumulative_bars cfg p t i r) = token \<and>
         b_decrease (cumulative_bars cfg p t i r) =
           \<lparr>p_value = Value (if js_lt t (Num 0) then clipped p t (get_met r (metricLabel cfg))
                              else js_neg (clipped p t (get_met r (metricLabel cfg)))),
            p_originalValue = get_met r (metricLabel cfg), p_totalSum = t,
            p_start = Undefined, p_end = Undefined, p_itemStyle = None\<rparr>"
    and "\<not> js_lt (clipped p t (get_met r (metricLabel cfg))) (Num 0) \<Longrightarrow>
         b_decrease (cumulative_bars cfg p t i r) = token \<and>
         b_increase (cumulative_bars cfg p t i r) =
           \<lparr>p_value = Value (if js_gt t (Num 0) then clipped p t (get_met r (metricLabel cfg))
                              else js_neg (clipped p t (get_met r (metricLabel cfg)))),
            p_originalValue = get_met r (metricLabel cfg), p_totalSum = t,
            p_start = Undefined, p_end = Undefined, p_itemStyle = None\<rparr>"
  using assms by (simp_all add: cumulative_bars_def clipped_def Let_def)

lemma js_ge_not_lt: "js_ge a (Num 0) \<Longrightarrow> \<not> js_lt a (Num 0)"
  by (cases a) (simp_all add: js_lt_def js_ge_def)

lemma clipped_Num:
  "clipped (Num p) (Num t) (Num x) =
     Num (if sgn p \<noteq> sgn t then sgn x * (\<bar>x\<bar> - \<bar>p\<bar>) else x)"
  by (simp add: clipped_def Math_sign_def Math_abs_def js_times_def js_minus_def)

lemma trigger_is_crossing:
  fixes p q :: real
  assumes "p \<noteq> 0" and "q \<noteq> 0"
  shows "strict_neq (Math_sign (Num p)) (Math_sign (Num q)) = spec_crossed (Num p) (Num q)"
  using assms
  by (auto simp: Math_sign_def spec_crossed_def js_lt_def js_gt_def sgn_if)

lemma trigger_at_zero:
  fixes p q :: real
  assumes "(p = 0) \<noteq> (q = 0)"
  shows "strict_neq (Math_sign (Num p)) (Math_sign (Num q))"
  using assms by (auto simp: Math_sign_def sgn_if)

text \<open>
  Claim C4, as the code has it. In cumulative mode, for every row that is not a total
  row, the value \<open>v\<close> of the bar is the metric of the row, except when
  \<^verbatim>\<open>Math.sign(previousTotal) !== Math.sign(totalSum)\<close>: then it is
  \<open>sign(value) * (|value| - |previousTotal|)\<close>. Between two totals that are not zero this
  test holds exactly when the running total crossed zero; it also holds when exactly one
  of the two totals is zero, so on a total that leaves zero (the first row) or comes
  back to zero. A value \<open>v < 0\<close> goes to the decrease series, as it is when the running
  total is negative and negated otherwise; a value \<open>v >= 0\<close> goes to the increase
  series, as it is when the running total is positive and negated otherwise. The other
  two series hold the sentinel.
\<close>

theorem cumulative_bar_value:
  assumes i: "i < length self" and nt: "\<not> isTotal cfg (self ! i)"
  defines "s \<equiv> cumulative_series cfg self"
  defines "prev \<equiv> previousTotal_at cfg self i"
  defines "t \<equiv> totalSum_at cfg self i"
  defines "m \<equiv> get_met (self ! i) (metricLabel cfg)"
  defines "v \<equiv> clipped prev t m"
  shows "(js_lt v (Num 0) \<longrightarrow>
            p_value (decreaseData s ! i) = Value (if js_lt t (Num 0) then v else js_neg v) \<and>
            increaseData s ! i = token \<and> totalData s ! i = token) \<and>
         (js_ge v (Num 0) \<longrightarrow>
            p_value (increaseData s ! i) = Value (if js_gt t (Num 0) then v else js_neg v) \<and>
            decreaseData s ! i = token \<and> totalData s ! i = token) \<and>
         (\<not> strict_neq (Math_sign prev) (Math_sign t) \<longrightarrow> v = m) \<and>
         (\<forall>p q x. prev = Num p \<and> t = Num q \<and> m = Num x \<longrightarrow>
            v = Num (if sgn p \<noteq> sgn q then sgn x * (\<bar>x\<bar> - \<bar>p\<bar>) else x)) \<and>
         (\<forall>p q. prev = Num p \<and> t = Num q \<and> p \<noteq> 0 \<and> q \<noteq> 0 \<longrightarrow>
            strict_neq (Math_sign prev) (Math_sign t) = spec_crossed prev t) \<and>
         (\<forall>p q. prev = Num p \<and> t = Num q \<and> (p = 0) \<noteq> (q = 0) \<longrightarrow>
            strict_neq (Math_sign prev) (Math_sign t))"
proof -
  have b: "increaseData s ! i = b_increase (cumulative_bars cfg prev t i (self ! i))"
      "decreaseData s ! i = b_decrease (cumulative_bars cfg prev t i (self ! i))"
      "totalData s ! i = b_total (cumulative_bars cfg prev t i (self ! i))"
    using i by (simp_all add: s_def nth_cumulative_series bars_at_def prev_def t_def)
  have "js_lt v (Num 0) \<Longrightarrow>
            p_value (decreaseData s ! i) = Value (if js_lt t (Num 0) then v else js_neg v) \<and>
            increaseData s ! i = token \<and> totalData s ! i = token"
    using bars_not_total(1,2) [OF nt, of prev t i] by (simp add: b v_def m_def)
  moreover
  have "js_ge v (Num 0) \<Longrightarrow>
            p_value (increaseData s ! i) = Value (if js_gt t (Num 0) then v else js_neg v) \<and>
            decreaseData s ! i = token \<and> totalData s ! i = token"
    using bars_not_total(1,3) [OF nt, of prev t i] js_ge_not_lt [of v]
    by (simp add: b v_def m_def)
  moreover
  have "\<not> strict_neq (Math_sign prev) (Math_sign t) \<Longrightarrow> v = m"
    by (simp add: v_def clipped_def)
  moreover
  have "prev = Num p \<and> t = Num q \<and> m = Num x \<Longrightarrow>
            v = Num (if sgn p \<noteq> sgn q then sgn x * (\<bar>x\<bar> - \<bar>p\<bar>) else x)" for p q x
    by (simp add: v_def clipped_Num)
  moreover
  have "prev = Num p \<and> t = Num q \<and> p \<noteq> 0 \<and> q \<noteq> 0 \<Longrightarrow>
            strict_neq (Math_sign prev) (Math_sign t) = spec_crossed prev t" for p q
    using trigger_is_crossing [of p q] by simp
  moreover
  have "prev = Num p \<and> t = Num q \<and> (p = 0) \<noteq> (q = 0) \<Longrightarrow>
            strict_neq (Math_sign prev) (Math_sign t)" for p q
    using trigger_at_zero [of p q] by simp
  ultimately show ?thesis by blast
qed


text \<open>
  The metrics 10, -5, -15: a first bar of 10, a drop of 5 above zero (negated to 5), and
  a drop of 15 through zero, clipped to the 10 below zero.
\<close>

theorem cumulative_bar_value_witness:
  "2 < length crossing \<and>
   p_value (increaseData (cumulative_series plain_config crossing) ! 0) = Value (Num 10) \<and>
   p_value (decreaseData (cumulative_series plain_config crossing) ! 1) = Value (Num 5) \<and>
   p_value (decreaseData (cumulative_series plain_config crossing) ! 2) = Value (Num (- 10)) \<and>
   increaseData (cumulative_series plain_config crossing) ! 2 = token"
proof -
  have i: "0 < length crossing" "1 < length crossing" "2 < length crossing"
    by code_simp+
  have nt: "\<not> isTotal plain_config (crossing ! 0)" "\<not> isTotal plain_config (crossing ! 1)"
      "\<not> isTotal plain_config (crossing ! 2)"
    by code_simp+
  have p: "previousTotal_at plain_config crossing 0 = Num 0"
      "previousTotal_at plain_config crossing 1 = Num 10"
      "previousTotal_at plain_config crossing 2 = Num 5"
    by code_simp+
  have t: "totalSum_at plain_config crossing 0 = Num 10"
      "totalSum_at plain_config crossing 1 = Num 5"
      "totalSum_at plain_config crossing 2 = Num (- 10)"
    by code_simp+
  have m: "get_met (crossing ! 0) (metricLabel plain_config) = Num 10"
      "get_met (crossing ! 1) (metricLabel plain_config) = Num (- 5)"
      "get_met (crossing ! 2) (metricLabel plain_config) = Num (- 15)"
    by code_simp+
  have c: "clipped (Num 0) (Num 10) (Num 10) = Num 10" "clipped (Num 10) (Num 5) (Num (- 5)) = Num (- 5)"
      "clipped (Num 5) (Num (- 10)) (Num (- 15)) = Num (- 10)"
    by (simp_all add: clipped_Num)
  have a: "js_ge (Num 10) (Num 0)" "js_gt (Num 10) (Num 0)" "js_lt (Num (- 5)) (Num 0)"
      "\<not> js_lt (Num 5) (Num 0)" "js_neg (Num (- 5)) = Num 5" "js_lt (Num (- 10)) (Num 0)"
    by (simp_all add: js_ge_def js_gt_def js_lt_def js_neg_def)
  have "p_value (increaseData (cumulative_series plain_config crossing) ! 0) = Value (Num 10)"
    using cumulative_bar_value [OF i(1) nt(1)] by (simp add: p t m c a)
  moreover
  have "p_value (decreaseData (cumulative_series plain_config crossing) ! 1) = Value (Num 5)"
    using cumulative_bar_value [OF i(2) nt(2)] by (simp add: p t m c a del: One_nat_def)
  moreover
  have "p_value (decreaseData (cumulative_series plain_config crossing) ! 2) = Value (Num (- 10)) \<and>
      increaseData (cumulative_series plain_config crossing) ! 2 = token"
    using cumulative_bar_value [OF i(3) nt(3)] by (simp add: p t m c a)
  ultimately show ?thesis using i(3) by blast
qed

text \<open>
  The claim clips the bar when the running total crossed zero. On the metrics 10, -10
  the running total goes from 10 to 0 and crosses nothing: by the wording of the claim
  the bar of the second row is the metric -10, a decrease. The source finds the signs
  of 10 and 0 different, clips the value to \<open>-1 * (10 - 10)\<close>, which is not below 0, and
  pushes 0 on the increase series and the sentinel on the decrease series.
\<close>

theorem cumulative_bar_value_counterexample:
  "\<not> useNonCumulative plain_config \<and>
   \<not> isTotal plain_config
       (transformer touching (xAxisName plain_config) (metricLabel plain_config)
          (breakdownName plain_config) (totalMark plain_config) (showTotal plain_config) ! 1) \<and>
   previousTotal_at plain_config
     (transformer touching (xAxisName plain_config) (metricLabel plain_config)
        (breakdownName plain_config) (totalMark plain_config) (showTotal plain_config)) 1
     = Num 10 \<and>
   totalSum_at plain_config
     (transformer touching (xAxisName plain_config) (metricLabel plain_config)
        (breakdownName plain_config) (totalMark plain_config) (showTotal plain_config)) 1
     = Num 0 \<and>
   get_met
     (transformer touching (xAxisName plain_config) (metricLabel plain_config)
        (breakdownName plain_config) (totalMark plain_config) (showTotal plain_config) ! 1)
     (metricLabel plain_config) = Num (- 10) \<and>
   \<not> spec_crossed (Num 10) (Num 0) \<and>
   spec_clipped (Num 10) (Num 0) (Num (- 10)) = Num (- 10) \<and>
   js_lt (spec_clipped (Num 10) (Num 0) (Num (- 10))) (Num 0) \<and>
   clipped (Num 10) (Num 0) (Num (- 10)) = Num 0 \<and>
   p_value (increaseData (barSeries (transformProps ''<NULL>'' plain_config touching)) ! 1)
     = Value (Num 0) \<and>
   p_value (decreaseData (barSeries (transformProps ''<NULL>'' plain_config touching)) ! 1)
     = TOKEN"
  by code_simp

lemma roundtrip_total_bars:
  "js_minus (sentinel_as_zero (p_value token)) (sentinel_as_zero (p_value token)) = Num 0"
  by (simp add: token_def only_value_def js_minus_def)

lemma js_minus_number: "js_minus a b = NaN \<or> (\<exists>d. js_minus a b = Num d)"
  by (cases "ToNumber a"; cases "ToNumber b") (simp_all add: js_minus_def)

lemma roundtrip_delta:
  assumes "a = NaN \<or> (\<exists>d. a = Num d)"
  shows "(if js_ge a (Num 0) then js_minus a (Num 0) else js_minus (Num 0) (js_neg a)) = a"
  using assms by (auto simp: js_ge_def js_minus_def js_neg_def)

lemma roundtrip_nonCumulative_bars:
  "\<not> isTotal cfg r \<Longrightarrow>
   js_minus (sentinel_as_zero (p_value (b_increase (nonCumulative_bars cfg r))))
            (sentinel_as_zero (p_value (b_decrease (nonCumulative_bars cfg r)))) =
   js_minus (read_metric (metricEndLabel cfg) r) (read_metric (metricStartLabel cfg) r)"
  using roundtrip_delta [OF js_minus_number,
      of "read_metric (metricEndLabel cfg) r" "read_metric (metricStartLabel cfg) r"]
  by (simp add: nonCumulative_bars_def Let_def token_def only_value_def split: if_splits)

lemma roundtrip_cumulative_bars:
  fixes p t x :: real
  assumes "\<not> isTotal cfg r" and "get_met r (metricLabel cfg) = Num x"
  defines "v \<equiv> (if sgn p \<noteq> sgn t then sgn x * (\<bar>x\<bar> - \<bar>p\<bar>) else x)"
  shows "js_minus (sentinel_as_zero (p_value (b_increase (cumulative_bars cfg (Num p) (Num t) i r))))
            (sentinel_as_zero (p_value (b_decrease (cumulative_bars cfg (Num p) (Num t) i r)))) =
         Num (if 0 < t then v else if t < 0 then - v else - \<bar>v\<bar>)"
proof -
  have c: "clipped (Num p) (Num t) (get_met r (metricLabel cfg)) = Num v"
    by (simp add: assms(2) clipped_Num v_def)
  show ?thesis
  proof (cases "v < 0")
    case True
    then have "js_lt (clipped (Num p) (Num t) (get_met r (metricLabel cfg))) (Num 0)"
      by (simp add: c js_lt_def)
    from bars_not_total(2) [OF assms(1) this, of i, unfolded c] True show ?thesis
      by (simp add: c token_def only_value_def js_minus_def js_neg_def js_lt_def)
  next
    case False
    then have "\<not> js_lt (clipped (Num p) (Num t) (get_met r (metricLabel cfg))) (Num 0)"
      by (simp add: c js_lt_def)
    from bars_not_total(3) [OF assms(1) this, of i, unfolded c] False show ?thesis
      by (simp add: c token_def only_value_def js_minus_def js_neg_def js_lt_def js_gt_def)
  qed
qed

text \<open>
  Claim C6, as the code has it. Write \<open>d\<close> for \<open>increase[i] - decrease[i]\<close> with a
  sentinel counted as 0. In cumulative mode, at a row that is not a total row, with the
  previous total \<open>p\<close> and the metric \<open>x\<close> (so that the running total is \<open>p + x\<close>) and the
  bar value \<open>v\<close> of the row (\<open>x\<close>, or \<open>sign(x) * (|x| - |p|)\<close> when the sign of the running
  total differs from the sign of \<open>p\<close>): \<open>d\<close> is \<open>v\<close> when the running total is positive,
  \<open>-v\<close> when it is negative and \<open>-|v|\<close> when it is zero. So \<open>d\<close> is the delta \<open>x\<close> added
  to the running total when \<open>p >= 0\<close> and \<open>p + x > 0\<close>, and it is \<open>-x\<close> when \<open>p <= 0\<close> and
  \<open>p + x < 0\<close>. At a total row \<open>d\<close> is 0. In non-cumulative mode, at a row that is not a
  total row, \<open>d\<close> is \<open>end - start\<close>.
\<close>

theorem roundtrip_by_mode:
  fixes cfg :: config and NULL_STRING :: string
  shows "(\<forall>i p x. i < length self \<and> \<not> isTotal cfg (self ! i) \<and>
            previousTotal_at cfg self i = Num p \<and> get_met (self ! i) (metricLabel cfg) = Num x \<longrightarrow>
            totalSum_at cfg self i = Num (p + x) \<and>
            roundtrip (cumulative_series cfg self) i =
              Num (let v = (if sgn p \<noteq> sgn (p + x) then sgn x * (\<bar>x\<bar> - \<bar>p\<bar>) else x)
                   in if 0 < p + x then v else if p + x < 0 then - v else - \<bar>v\<bar>) \<and>
            (0 \<le> p \<and> 0 < p + x \<longrightarrow> roundtrip (cumulative_series cfg self) i = Num x) \<and>
            (p \<le> 0 \<and> p + x < 0 \<longrightarrow> roundtrip (cumulative_series cfg self) i = Num (- x))) \<and>
         (\<forall>i. i < length self \<and> isTotal cfg (self ! i) \<longrightarrow>
            roundtrip (cumulative_series cfg self) i = Num 0) \<and>
         (\<forall>i. useNonCumulative cfg \<and> i < length data \<and> \<not> isTotal cfg (data ! i) \<longrightarrow>
            roundtrip (barSeries (transformProps NULL_STRING cfg data)) i =
              js_minus (read_metric (metricEndLabel cfg) (data ! i))
                       (read_metric (metricStartLabel cfg) (data ! i)))"
proof (intro conjI allI impI)
  fix i p x
  assume a: "i < length self \<and> \<not> isTotal cfg (self ! i) \<and>
            previousTotal_at cfg self i = Num p \<and> get_met (self ! i) (metricLabel cfg) = Num x"
  then have t: "totalSum_at cfg self i = Num (p + x)"
    by (simp add: totalSum_at_step isTotal_counted js_plus_def)
  from a t have r: "roundtrip (cumulative_series cfg self) i =
              Num (let v = (if sgn p \<noteq> sgn (p + x) then sgn x * (\<bar>x\<bar> - \<bar>p\<bar>) else x)
                   in if 0 < p + x then v else if p + x < 0 then - v else - \<bar>v\<bar>)"
    using roundtrip_cumulative_bars [of cfg "self ! i" x p "p + x" i]
    by (simp add: roundtrip_def nth_cumulative_series bars_at_def Let_def)
  show "totalSum_at cfg self i = Num (p + x)" by (rule t)
  show "roundtrip (cumulative_series cfg self) i =
              Num (let v = (if sgn p \<noteq> sgn (p + x) then sgn x * (\<bar>x\<bar> - \<bar>p\<bar>) else x)
                   in if 0 < p + x then v else if p + x < 0 then - v else - \<bar>v\<bar>)" by (rule r)
  show "roundtrip (cumulative_series cfg self) i = Num x" if "0 \<le> p \<and> 0 < p + x"
    using that by (cases "p = 0") (auto simp: r Let_def sgn_if)
  show "roundtrip (cumulative_series cfg self) i = Num (- x)" if "p \<le> 0 \<and> p + x < 0"
    using that by (cases "p = 0") (auto simp: r Let_def sgn_if)
next
  fix i
  assume "i < length self \<and> isTotal cfg (self ! i)"
  then show "roundtrip (cumulative_series cfg self) i = Num 0"
    by (simp add: roundtrip_def nth_cumulative_series bars_at_def cumulative_bars_def Let_def
          roundtrip_total_bars)
next
  fix i
  assume a: "useNonCumulative cfg \<and> i < length data \<and> \<not> isTotal cfg (data ! i)"
  then show "roundtrip (barSeries (transformProps NULL_STRING cfg data)) i =
              js_minus (read_metric (metricEndLabel cfg) (data ! i))
                       (read_metric (metricStartLabel cfg) (data ! i))"
    by (simp add: roundtrip_def transformProps_nonCumulative nth_series_of
          roundtrip_nonCumulative_bars)
qed

text \<open>
  A single category with the metric -10: the running total is \<open>0 + (-10)\<close>, the bar
  goes to the decrease series with the value -10, and \<open>increase - decrease\<close> is 10, not
  the delta -10.
\<close>

theorem roundtrip_counterexample:
  "\<not> useNonCumulative plain_config \<and>
   \<not> isTotal plain_config
       (transformer [quarter ''A'' (- 10)] (xAxisName plain_config) (metricLabel plain_config)
          (breakdownName plain_config) (totalMark plain_config) (showTotal plain_config) ! 0) \<and>
   totalSum_at plain_config
     (transformer [quarter ''A'' (- 10)] (xAxisName plain_config) (metricLabel plain_config)
        (breakdownName plain_config) (totalMark plain_config) (showTotal plain_config)) 0
     = js_plus (Num 0) (Num (- 10)) \<and>
   roundtrip (barSeries (transformProps ''<NULL>'' plain_config [quarter ''A'' (- 10)])) 0 = Num 10"
  by code_simp

text \<open>
  On the metrics 10, -5, -15: at index 1 the difference is the delta -5; at index 2
  (running total -10) it is 10. On scenario B it is \<open>80 - 100\<close>.
\<close>

theorem roundtrip_by_mode_witness:
  "2 < length crossing \<and>
   totalSum_at plain_config crossing 1 = Num 5 \<and>
   roundtrip (cumulative_series plain_config crossing) 1 = Num (- 5) \<and>
   totalSum_at plain_config crossing 2 = Num (- 10) \<and>
   roundtrip (cumulative_series plain_config crossing) 2 = Num 10 \<and>
   roundtrip (barSeries (transformProps ''<NULL>'' spans_config spans)) 0 = Num (- 20)"
proof -
  have i: "1 < length crossing" "2 < length crossing" "0 < length spans" by code_simp+
  have nt: "\<not> isTotal plain_config (crossing ! 1)" "\<not> isTotal plain_config (crossing ! 2)"
      "\<not> isTotal spans_config (spans ! 0)" "useNonCumulative spans_config"
    by code_simp+
  have p: "previousTotal_at plain_config crossing 1 = Num 10"
      "previousTotal_at plain_config crossing 2 = Num 5"
      "get_met (crossing ! 1) (metricLabel plain_config) = Num (- 5)"
      "get_met (crossing ! 2) (metricLabel plain_config) = Num (- 15)"
      "read_metric (metricStartLabel spans_config) (spans ! 0) = Num 100"
      "read_metric (metricEndLabel spans_config) (spans ! 0) = Num 80"
    by code_simp+
  have "totalSum_at plain_config crossing 1 = Num 5 \<and>
      roundtrip (cumulative_series plain_config crossing) 1 = Num (- 5)"
    using roundtrip_by_mode [of crossing plain_config] i(1) nt(1) p(1,3) by fastforce
  moreover
  have "totalSum_at plain_config crossing 2 = Num (- 10) \<and>
      roundtrip (cumulative_series plain_config crossing) 2 = Num 10"
    using roundtrip_by_mode [of crossing plain_config] i(2) nt(2) p(2,4) by fastforce
  moreover
  have "roundtrip (barSeries (transformProps ''<NULL>'' spans_config spans)) 0 = Num (- 20)"
    using roundtrip_by_mode [of _ spans_config spans "''<NULL>''"] i(3) nt(3,4)
    by (simp add: p js_minus_def)
  ultimately show ?thesis using i(2) by blast
qed

subsection \<open>The tooltip formatter\<close>

lemma find_none:
  "(\<forall>x\<in>set xs. \<not> P x) \<Longrightarrow> find P xs = None"
  by (induction xs) simp_all

text \<open>
  Claim C9. When no entry of \<open>params\<close> has a series name other than the assist marker
  together with a value other than the sentinel, \<open>formatTooltip\<close> returns the empty
  string. The second check \<^verbatim>\<open>if (!series) return NULL_STRING\<close> is never taken: the
  result is the same whatever \<^verbatim>\<open>NULL_STRING\<close> is, and as soon as an entry can be picked
  the result is a call of \<^verbatim>\<open>tooltipHtml\<close>.
\<close>

theorem tooltip_without_series:
  "((\<forall>param\<in>set params. cb_seriesName param = ASSIST_MARK \<or> p_value (cb_data param) = TOKEN) \<longrightarrow>
      formatTooltip ASSIST_MARK NULL_STRING tooltipHtml toFixed2 params breakdown
        defaultFormatter xAxisFormatter mark mode = []) \<and>
   (\<forall>other.
      formatTooltip ASSIST_MARK other tooltipHtml toFixed2 params breakdown
        defaultFormatter xAxisFormatter mark mode =
      formatTooltip ASSIST_MARK NULL_STRING tooltipHtml toFixed2 params breakdown
        defaultFormatter xAxisFormatter mark mode) \<and>
   ((\<exists>param\<in>set params. cb_seriesName param \<noteq> ASSIST_MARK \<and> p_value (cb_data param) \<noteq> TOKEN) \<longrightarrow>
      (\<exists>rows title.
         formatTooltip ASSIST_MARK NULL_STRING tooltipHtml toFixed2 params breakdown
           defaultFormatter xAxisFormatter mark mode = tooltipHtml rows title))"
proof (intro conjI allI impI)
  assume "\<forall>param\<in>set params. cb_seriesName param = ASSIST_MARK \<or> p_value (cb_data param) = TOKEN"
  then have "find (\<lambda>param. cb_seriesName param \<noteq> ASSIST_MARK \<and> p_value (cb_data param) \<noteq> TOKEN)
               params = None"
    by (intro find_none) auto
  then show "formatTooltip ASSIST_MARK NULL_STRING tooltipHtml toFixed2 params breakdown
        defaultFormatter xAxisFormatter mark mode = []"
    by (simp add: formatTooltip_def)
next
  fix other
  show "formatTooltip ASSIST_MARK other tooltipHtml toFixed2 params breakdown
        defaultFormatter xAxisFormatter mark mode =
      formatTooltip ASSIST_MARK NULL_STRING tooltipHtml toFixed2 params breakdown
        defaultFormatter xAxisFormatter mark mode"
    by (simp add: formatTooltip_def split: option.splits)
next
  assume "\<exists>param\<in>set params. cb_seriesName param \<noteq> ASSIST_MARK \<and> p_value (cb_data param) \<noteq> TOKEN"
  then obtain s where
    "find (\<lambda>param. cb_seriesName param \<noteq> ASSIST_MARK \<and> p_value (cb_data param) \<noteq> TOKEN)
       params = Some s"
    by (cases "find (\<lambda>param. cb_seriesName param \<noteq> ASSIST_MARK \<and> p_value (cb_data param) \<noteq> TOKEN)
       params") (auto simp: find_None_iff)
  then show "\<exists>rows title.
         formatTooltip ASSIST_MARK NULL_STRING tooltipHtml toFixed2 params breakdown
           defaultFormatter xAxisFormatter mark mode = tooltipHtml rows title"
    by (simp add: formatTooltip_def Let_def) blast
qed

text \<open>Hovering a category whose four points are sentinels, and one with a rise.\<close>

theorem tooltip_without_series_witness:
  "find (\<lambda>param. cb_seriesName param \<noteq> ''assist'' \<and> p_value (cb_data param) \<noteq> TOKEN)
     (hover token token token token) = None \<and>
   formatTooltip ''assist'' ''<NULL>'' rows_text hash (hover token token token token) None hash
     (\<lambda>v i. ''A'') ''Total'' False = [] \<and>
   (\<exists>param\<in>set (hover token (rise 100 120) token token).
      cb_seriesName param \<noteq> ''assist'' \<and> p_value (cb_data param) \<noteq> TOKEN) \<and>
   (\<exists>rows title.
      formatTooltip ''assist'' ''<NULL>'' rows_text hash (hover token (rise 100 120) token token)
        None hash (\<lambda>v i. ''A'') ''Total'' False = rows_text rows title)"
proof -
  have a: "\<forall>param\<in>set (hover token token token token).
      cb_seriesName param = ''assist'' \<or> p_value (cb_data param) = TOKEN"
    by (simp add: hover_def token_def only_value_def)
  have b: "\<exists>param\<in>set (hover token (rise 100 120) token token).
      cb_seriesName param \<noteq> ''assist'' \<and> p_value (cb_data param) \<noteq> TOKEN"
    by (simp add: hover_def rise_def)
  from a have "find (\<lambda>param. cb_seriesName param \<noteq> ''assist'' \<and> p_value (cb_data param) \<noteq> TOKEN)
     (hover token token token token) = None"
    by (intro find_none) auto
  with a b
    tooltip_without_series [of "hover token token token token" "''assist''" "''<NULL>''" rows_text
      hash None hash "\<lambda>v i. ''A''" "''Total''" False]
    tooltip_without_series [of "hover token (rise 100 120) token token" "''assist''" "''<NULL>''"
      rows_text hash None hash "\<lambda>v i. ''A''" "''Total''" False]
  show ?thesis by blast
qed

lemma ToNumber_number: "is_number (ToNumber a)"
  by (cases a) simp_all

lemma arith_number: "is_number (arith f a b)"
  by (cases a; cases b) simp_all

lemma unary_number: "is_number (unary f a)"
  by (cases a) simp_all

lemma nonCumulative_points_numbers:
  assumes "p = b_increase (nonCumulative_bars cfg r) \<or> p = b_decrease (nonCumulative_bars cfg r)"
    and "holds_bar p"
  shows "is_number (p_start p) \<and> is_number (p_end p) \<and> is_number (p_originalValue p)"
  using assms
  by (auto simp: nonCumulative_bars_def Let_def holds_bar_def token_def only_value_def
        read_metric_def js_minus_def ToNumber_number arith_number split: if_splits)

text \<open>
  Claim C8. In non-cumulative mode, for the picked entry \<open>s\<close> when it is not the total
  series: the rows are Start and End (each when defined) and one more row. When
  \<open>start\<close> is a number other than 0 and \<open>originalValue\<close> is a number, that row is
  \<open>Change (%)\<close> with \<open>(originalValue / start) * 100\<close> in two decimals and a percent
  sign. Otherwise, for instance when \<open>start\<close> is 0, it is \<open>Change\<close> with the formatted
  \<open>originalValue\<close>; the division is then not performed. (The fallback row needs an
  \<open>originalValue\<close> that is defined; by the lemma above every point with a bar in the
  increase and decrease series of this mode has one.)
\<close>

theorem tooltip_change_row:
  fixes tooltipHtml :: "string list list \<Rightarrow> string option \<Rightarrow> string"
    and toFixed2 defaultFormatter :: "jsnum \<Rightarrow> string"
    and xAxisFormatter :: "jsval \<Rightarrow> nat \<Rightarrow> string"
    and NULL_STRING :: string and breakdown :: "string option"
  assumes pick: "find (\<lambda>param. cb_seriesName param \<noteq> ASSIST_MARK \<and> p_value (cb_data param) \<noteq> TOKEN)
                   params = Some s"
    and nt: "cb_seriesName s \<noteq> mark"
  defines "start \<equiv> p_start (cb_data s)"
  defines "end \<equiv> nullish (p_end (cb_data s)) (p_totalSum (cb_data s))"
  defines "originalValue \<equiv> p_originalValue (cb_data s)"
  defines "before \<equiv> (if start \<noteq> Undefined then [[''Start'', defaultFormatter start]] else []) @
                     (if end \<noteq> Undefined then [[''End'', defaultFormatter end]] else [])"
  defines "title \<equiv> Some (xAxisFormatter (cb_name s) (cb_dataIndex s))"
  defines "shown \<equiv> formatTooltip ASSIST_MARK NULL_STRING tooltipHtml toFixed2 params breakdown
                      defaultFormatter xAxisFormatter mark True"
  shows "(is_number start \<and> start \<noteq> Num 0 \<and> is_number originalValue \<longrightarrow>
            shown = tooltipHtml
                      (before @ [[''Change (%)'',
                         toFixed2 (js_times (js_div originalValue start) (Num 100)) @ ''%'']])
                      title) \<and>
         (\<forall>a c. start = Num a \<and> a \<noteq> 0 \<and> originalValue = Num c \<longrightarrow>
            shown = tooltipHtml
                      (before @ [[''Change (%)'', toFixed2 (Num (c / a * 100)) @ ''%'']]) title) \<and>
         (\<not> (is_number start \<and> start \<noteq> Num 0 \<and> is_number originalValue) \<and>
          originalValue \<noteq> Undefined \<longrightarrow>
            shown = tooltipHtml (before @ [[''Change'', defaultFormatter originalValue]]) title) \<and>
         (start = Num 0 \<and> originalValue \<noteq> Undefined \<longrightarrow>
            shown = tooltipHtml (before @ [[''Change'', defaultFormatter originalValue]]) title)"
proof -
  have general: "shown = tooltipHtml
      (before @
       (if is_number start \<and> start \<noteq> Num 0 \<and> is_number originalValue
        then [[''Change (%)'', toFixed2 (js_times (js_div originalValue start) (Num 100)) @ ''%'']]
        else if originalValue \<noteq> Undefined then [[''Change'', defaultFormatter originalValue]]
        else []))
      title"
    using nt
    by (simp add: shown_def formatTooltip_def pick Let_def before_def start_def end_def
          originalValue_def title_def)
  have pc: "js_times (js_div (Num c) (Num a)) (Num 100) = Num (c / a * 100)" for a c :: real
    by (simp add: js_times_def js_div_def)
  from general pc show ?thesis
    by auto
qed


text \<open>
  Scenarios C and D: from 100 to 120 the row is the percentage of 20 on 100; from 0 to
  50 it is the change itself.
\<close>

theorem tooltip_change_row_witness:
  "find (\<lambda>param. cb_seriesName param \<noteq> ''assist'' \<and> p_value (cb_data param) \<noteq> TOKEN)
     (hover token (rise 100 120) token token) =
     Some \<lparr>cb_seriesName = ''Increase'', cb_name = JStr ''A'', cb_dataIndex = 0,
            cb_data = rise 100 120\<rparr> \<and>
   formatTooltip ''assist'' ''<NULL>'' rows_text
     (\<lambda>n. if n = Num 20 then ''20.00'' else ''#'')
     (hover token (rise 100 120) token token) None hash (\<lambda>v i. ''A'') ''Total'' True =
     ''Start#|End#|Change (%)20.00%|'' \<and>
   formatTooltip ''assist'' ''<NULL>'' rows_text hash
     (hover token (rise 0 50) token token) None hash (\<lambda>v i. ''A'') ''Total'' True =
     ''Start#|End#|Change#|''"
proof -
  have p: "find (\<lambda>param. cb_seriesName param \<noteq> ''assist'' \<and> p_value (cb_data param) \<noteq> TOKEN)
     (hover token (rise a b) token token) =
     Some \<lparr>cb_seriesName = ''Increase'', cb_name = JStr ''A'', cb_dataIndex = 0,
            cb_data = rise a b\<rparr>" for a b
    by (simp add: hover_def token_def only_value_def rise_def)
  have n: "cb_seriesName \<lparr>cb_seriesName = ''Increase'', cb_name = JStr ''A'', cb_dataIndex = 0,
            cb_data = rise a b\<rparr> \<noteq> ''Total''" for a b
    by simp
  have "formatTooltip ''assist'' ''<NULL>'' rows_text
     (\<lambda>n. if n = Num 20 then ''20.00'' else ''#'')
     (hover token (rise 100 120) token token) None hash (\<lambda>v i. ''A'') ''Total'' True =
     ''Start#|End#|Change (%)20.00%|''"
    using tooltip_change_row [OF p n, of 100 120 "''<NULL>''" rows_text
        "\<lambda>n. if n = Num 20 then ''20.00'' else ''#''" None hash "\<lambda>v i. ''A''"]
    by (simp add: rise_def rows_text_def hash_def js_times_def js_div_def)
  moreover
  have "formatTooltip ''assist'' ''<NULL>'' rows_text hash
     (hover token (rise 0 50) token token) None hash (\<lambda>v i. ''A'') ''Total'' True =
     ''Start#|End#|Change#|''"
    using tooltip_change_row [OF p n, of 0 50 "''<NULL>''" rows_text hash None hash "\<lambda>v i. ''A''"]
    by (simp add: rise_def rows_text_def hash_def)
  ultimately show ?thesis using p by blast
qed

subsection \<open>Missing values\<close>

text \<open>
  The category axis replaces a missing label (and every other value that counts as
  false) by \<^verbatim>\<open>NULL_STRING\<close>, and its entries are strings or numbers.
\<close>

lemma axis_label_missing:
  assumes "given (breakdownName cfg) = None"
    and "get_dim r (xAxisName cfg) = JUndefined \<or> get_dim r (xAxisName cfg) = JNull"
  shows "xAxis_entry NULL_STRING cfg r = (xAxisName cfg, JStr NULL_STRING)"
  using assms by (auto simp: xAxis_entry_def)

lemma axis_label_string_or_number:
  "(\<exists>s. snd (xAxis_entry NULL_STRING cfg r) = JStr s) \<or>
   (\<exists>x. snd (xAxis_entry NULL_STRING cfg r) = JNum x)"
proof -
  have "(\<exists>s. to_label v = JStr s) \<or> (\<exists>x. to_label v = JNum x)" for v
    by (cases v) simp_all
  then show ?thesis
    by (simp add: xAxis_entry_def Let_def split: prod.splits)
qed

text \<open>
  Claim C7 says that every missing numeric field counts as 0 in the values of the
  series. The running total and the sums of \<open>transformer\<close> read the metric with
  \<^verbatim>\<open>?? 0\<close>; the bar of a row reads it without (\<^verbatim>\<open>datum[metricLabel] as number\<close>). With a
  breakdown, where the rows are not summed, a null metric after a row of 5 is pushed as
  the value \<open>null\<close> of the increase series, where a metric of 0 gives the value 0.
\<close>

theorem null_metric_emitted:
  "\<not> useNonCumulative breakdown_config \<and>
   get_met (null_metric_rows ! 1) (metricLabel breakdown_config) = Null \<and>
   map p_value (increaseData (barSeries (transformProps ''<NULL>'' breakdown_config null_metric_rows)))
     = [Value (Num 5), Value Null] \<and>
   map p_value (increaseData (barSeries (transformProps ''<NULL>'' breakdown_config zero_metric_rows)))
     = [Value (Num 5), Value (Num 0)] \<and>
   map p_totalSum (increaseData (barSeries (transformProps ''<NULL>'' breakdown_config null_metric_rows)))
     = [Num 5, Num 5]"
  by code_simp

end
